theory Spec2Isabelle
  imports Main "HOL-Library.AList" "HOL-Library.Multiset"
begin

section \<open>Data model of the Secret Santa server\<close>

text \<open>
  The server keeps its rooms in a JavaScript \<^verbatim>\<open>Map\<close> from room id to room object.
  A JavaScript string is modelled as a \<^typ>\<open>string\<close>, one character per code unit.
  A request field is a string; the empty string also stands for an absent field, since
  every check the handlers make on a field (\<^verbatim>\<open>!field\<close>, \<^verbatim>\<open>if (field)\<close>) treats
  \<^verbatim>\<open>undefined\<close> and \<^verbatim>\<open>''\<close> alike. Fields that are present but not strings are
  outside the model.
\<close>

datatype room_status = Open | Started

record participant =
  username :: string
  passwordHash :: string
  publicKey :: string
  keySalt :: string
  encryptedAssignment :: "string option"

record room =
  room_id :: string
  room_name :: string
  hostUsername :: string
  hostLoginHash :: string
  participants :: "participant list"
  status :: room_status
  createdAt :: string

text \<open>An element of the array \<^verbatim>\<open>generateSecretSantaAssignments\<close> returns:
  \<^verbatim>\<open>{username: giver, giftRecipient: receiver}\<close>.\<close>

record assignment =
  giver :: string
  giftRecipient :: string

text \<open>The body of a reply, and the reply with its HTTP status code.\<close>

datatype json =
    JNull
  | JBool bool
  | JNum nat
  | JStr string
  | JArr "json list"
  | JObj "(string \<times> json) list"

datatype response = Response nat json

text \<open>
  Everything a handler reads from outside the process during one request: the clock, the
  random sources, the bcrypt and RSA libraries, the random comparator of the shuffle and
  the file system. \<open>sort_random k xs\<close> is the array that
  \<^verbatim>\<open>[...xs].sort(() => Math.random() - 0.5)\<close> yields in the \<open>k\<close>-th pass of the
  redraw loop; \<open>rsa_oaep_encrypt pem m\<close> is the base64 ciphertext, or \<open>None\<close> when the
  library throws.
\<close>

record env =
  clientId :: string
  date_now :: int
  created_iso :: string
  save_iso :: string
  uuidv4 :: string
  randomBytes_hex :: string
  bcrypt_hash :: "string \<Rightarrow> string"
  bcrypt_compare :: "string \<Rightarrow> string \<Rightarrow> bool"
  sort_random :: "nat \<Rightarrow> string list \<Rightarrow> string list"
  rsa_oaep_encrypt :: "string \<Rightarrow> string \<Rightarrow> string option"
  readFile :: "string \<Rightarrow> string option"
  mkdir_fails :: bool
  json_stringify :: "(string \<times> room) list \<Rightarrow> string"
  BASE_URL :: string

record server_state =
  rooms :: "(string \<times> room) list"
  rateLimitMap :: "(string \<times> int list) list"
  saveInProgress :: bool

datatype fs_call = Mkdir string | ReadFile string | WriteFile string string

text \<open>The object an \<^verbatim>\<open>async\<close> function returns; \<^verbatim>\<open>await\<close> yields its value.\<close>

datatype 'a promise = Promise 'a

definition await :: "'a promise \<Rightarrow> 'a" where
  "await p = (case p of Promise v \<Rightarrow> v)"

text \<open>The operands of the one \<^verbatim>\<open>!==\<close> that compares values of different types.\<close>

datatype js_operand = StringValue string | PromiseObject "string promise"

fun strict_not_equal :: "js_operand \<Rightarrow> js_operand \<Rightarrow> bool" where
  "strict_not_equal (StringValue a) (StringValue b) = (a \<noteq> b)"
| "strict_not_equal _ _ = True"

section \<open>Persistence\<close>

definition DATA_DIR :: string where
  "DATA_DIR = ''data''"

definition ROOMS_FILE :: string where
  "ROOMS_FILE = DATA_DIR @ ''/rooms.json''"

text \<open>
  \<^verbatim>\<open>saveData\<close>: the state after the call and the file-system calls it issued, in order.
  A failing \<^verbatim>\<open>mkdir\<close> ends the flush in the outer \<^verbatim>\<open>catch\<close>; a failing read of the
  live file skips the backup; the outcome of the two writes changes nothing the function
  does afterwards.
\<close>

definition saveData :: "env \<Rightarrow> server_state \<Rightarrow> server_state \<times> fs_call list" where
  "saveData e st =
     (if saveInProgress st then (st, [])
      else
        let timestamp = map (\<lambda>c. if c = CHR '':'' \<or> c = CHR ''.'' then CHR ''-'' else c) (save_iso e);
            backupDir = DATA_DIR @ ''/backups'';
            backup = (case readFile e ROOMS_FILE of
                        None \<Rightarrow> [ReadFile ROOMS_FILE]
                      | Some data \<Rightarrow>
                          [ReadFile ROOMS_FILE,
                           WriteFile (backupDir @ ''/rooms.json.'' @ timestamp @ ''.backup'') data]);
            roomsData = json_stringify e (rooms st)
        in if mkdir_fails e then (st\<lparr>saveInProgress := False\<rparr>, [Mkdir backupDir])
           else (st\<lparr>saveInProgress := False\<rparr>,
                 [Mkdir backupDir] @ backup @ [WriteFile ROOMS_FILE roomsData]))"

section \<open>Helpers\<close>

definition generateKeySalt :: "env \<Rightarrow> string" where
  "generateKeySalt e = randomBytes_hex e"

definition hashPassword :: "env \<Rightarrow> string \<Rightarrow> string promise" where
  "hashPassword e password = Promise (bcrypt_hash e password)"

definition verifyPassword :: "env \<Rightarrow> string \<Rightarrow> string \<Rightarrow> bool promise" where
  "verifyPassword e password hash = Promise (bcrypt_compare e password hash)"

text \<open>The white space \<^verbatim>\<open>String.prototype.trim\<close> strips, among the code units below 256:
  tab, line feed, vertical tab, form feed, carriage return, space, no-break space.\<close>

definition is_whitespace :: "char \<Rightarrow> bool" where
  "is_whitespace c = (c \<in> set [CHR 0x09, CHR 0x0A, CHR 0x0B, CHR 0x0C, CHR 0x0D, CHR 0x20, CHR 0xA0])"

definition trim :: "string \<Rightarrow> string" where
  "trim s = rev (dropWhile is_whitespace (rev (dropWhile is_whitespace s)))"

definition special_char :: "char \<Rightarrow> bool" where
  "special_char c = (c \<in> set [CHR ''<'', CHR ''>'', CHR 0x22, CHR 0x27, CHR ''&''])"

definition sanitizeString :: "string \<Rightarrow> nat \<Rightarrow> string" where
  "sanitizeString str maxLength = filter (\<lambda>c. \<not> special_char c) (take maxLength (trim str))"

definition validateUsername :: "string \<Rightarrow> string + string" where
  "validateUsername uname =
     (let sanitized = sanitizeString uname 50
      in if sanitized = [] \<or> length sanitized < 2
         then Inl ''Username must be at least 2 characters''
         else Inr sanitized)"

definition validatePassword :: "string \<Rightarrow> string + string" where
  "validatePassword password =
     (if length password < 4 then Inl ''Password must be at least 4 characters''
      else Inr password)"

definition validateRoomName :: "string \<Rightarrow> string + string" where
  "validateRoomName nm =
     (let sanitized = sanitizeString nm 100
      in if sanitized = [] \<or> length sanitized < 1
         then Inl ''Room name cannot be empty''
         else Inr sanitized)"

definition RATE_LIMIT_WINDOW :: int where
  "RATE_LIMIT_WINDOW = 60000"

definition MAX_REQUESTS_PER_WINDOW :: nat where
  "MAX_REQUESTS_PER_WINDOW = 10"

definition isRateLimited :: "env \<Rightarrow> server_state \<Rightarrow> bool \<times> server_state" where
  "isRateLimited e st =
     (let now = date_now e;
          requests = (case map_of (rateLimitMap st) (clientId e) of None \<Rightarrow> [] | Some r \<Rightarrow> r);
          recentRequests = filter (\<lambda>time. now - time < RATE_LIMIT_WINDOW) requests
      in if length recentRequests \<ge> MAX_REQUESTS_PER_WINDOW then (True, st)
         else (False,
               st\<lparr>rateLimitMap := AList.update (clientId e) (recentRequests @ [now]) (rateLimitMap st)\<rparr>))"

definition error_json :: "string \<Rightarrow> json" where
  "error_json msg = JObj [(''error'', JStr msg)]"

definition status_json :: "room_status \<Rightarrow> json" where
  "status_json s = (case s of Open \<Rightarrow> JStr ''open'' | Started \<Rightarrow> JStr ''started'')"

definition usernames_json :: "participant list \<Rightarrow> json" where
  "usernames_json ps = JArr (map (\<lambda>p. JObj [(''username'', JStr (username p))]) ps)"

text \<open>In-place change of the object \<^verbatim>\<open>Array.prototype.find\<close> returned: the first match.\<close>

fun update_first :: "('a \<Rightarrow> bool) \<Rightarrow> ('a \<Rightarrow> 'a) \<Rightarrow> 'a list \<Rightarrow> 'a list" where
  "update_first P f [] = []"
| "update_first P f (x # xs) = (if P x then f x # xs else x # update_first P f xs)"

fun join :: "string \<Rightarrow> string list \<Rightarrow> string" where
  "join sep [] = []"
| "join sep [x] = x"
| "join sep (x # y # ys) = x @ sep @ join sep (y # ys)"

section \<open>Assignment generation\<close>

definition maxAttempts :: nat where
  "maxAttempts = 100"

text \<open>The inner \<^verbatim>\<open>for\<close> loop: \<open>None\<close> when a giver meets themselves (\<^verbatim>\<open>valid = false\<close>).
  \<^verbatim>\<open>shuffled\<close> is the sorted copy of \<^verbatim>\<open>usernames\<close>, so it has the same length.\<close>

function for_loop :: "string list \<Rightarrow> string list \<Rightarrow> nat \<Rightarrow> assignment list \<Rightarrow> assignment list option" where
  "for_loop usernames shuffled i assignments =
     (if i < length usernames then
        (let g = usernames ! i; receiver = shuffled ! i
         in if g = receiver then None
            else for_loop usernames shuffled (i + 1)
                   (assignments @ [\<lparr>giver = g, giftRecipient = receiver\<rparr>]))
      else Some assignments)"
  by pat_completeness auto
termination
  by (relation "measure (\<lambda>(usernames, shuffled, i, assignments). length usernames - i)") auto

declare for_loop.simps [simp del]

function while_loop :: "env \<Rightarrow> string list \<Rightarrow> nat \<Rightarrow> string + assignment list" where
  "while_loop e usernames attempts =
     (if attempts < maxAttempts then
        (case for_loop usernames (sort_random e attempts usernames) 0 [] of
           Some assignments \<Rightarrow> Inr assignments
         | None \<Rightarrow> while_loop e usernames (attempts + 1))
      else Inl ''Failed to generate valid Secret Santa assignments'')"
  by pat_completeness auto
termination
  by (relation "measure (\<lambda>(e, usernames, attempts). maxAttempts - attempts)") auto

declare while_loop.simps [simp del]

definition generateSecretSantaAssignments :: "env \<Rightarrow> participant list \<Rightarrow> string + assignment list" where
  "generateSecretSantaAssignments e ps = while_loop e (map username ps) 0"

section \<open>Request handlers\<close>

text \<open>
  Each handler takes the request's parameters and the state, and returns the state after
  the request with the reply. The definitions of this section run a handler from its first
  line to its reply without another request in between; the next section cuts
  \<^verbatim>\<open>register\<close> and \<^verbatim>\<open>start\<close> at their awaits. \<^verbatim>\<open>res.json\<close> without a
  status is a reply 200. The routes that serve a page or a room's public summary change
  nothing and are left out.
\<close>

definition room_summary :: "room \<Rightarrow> json" where
  "room_summary r =
     JObj [(''id'', JStr (room_id r)), (''name'', JStr (room_name r)),
           (''hostUsername'', JStr (hostUsername r)),
           (''participantCount'', JNum (length (participants r))),
           (''status'', status_json (status r))]"

text \<open>\<^verbatim>\<open>POST /api/rooms\<close>\<close>

definition post_rooms :: "env \<Rightarrow> string \<Rightarrow> string \<Rightarrow> string \<Rightarrow> server_state \<Rightarrow> server_state \<times> response" where
  "post_rooms e nm hostUser hostPassword st0 =
     (case isRateLimited e st0 of
        (True, st) \<Rightarrow> (st, Response 429 (error_json ''Too many requests. Please wait a minute.''))
      | (False, st) \<Rightarrow>
          if nm = [] \<or> hostUser = [] \<or> hostPassword = []
          then (st, Response 400 (error_json ''Room name, host username, and password are required''))
          else
            (case validateRoomName nm of
               Inl msg \<Rightarrow> (st, Response 400 (error_json msg))
             | Inr sanitizedName \<Rightarrow>
            (case validateUsername hostUser of
               Inl msg \<Rightarrow> (st, Response 400 (error_json msg))
             | Inr sanitizedUsername \<Rightarrow>
            (case validatePassword hostPassword of
               Inl msg \<Rightarrow> (st, Response 400 (error_json msg))
             | Inr _ \<Rightarrow>
                 let roomId = uuidv4 e;
                     loginHash = await (hashPassword e (sanitizedUsername @ hostPassword));
                     r = \<lparr>room_id = roomId, room_name = sanitizedName,
                          hostUsername = sanitizedUsername, hostLoginHash = loginHash,
                          participants = [], status = Open, createdAt = created_iso e\<rparr>;
                     st1 = st\<lparr>rooms := AList.update roomId r (rooms st)\<rparr>;
                     st2 = fst (saveData e st1)
                 in (st2, Response 200
                       (JObj [(''roomId'', JStr roomId),
                              (''roomUrl'', JStr (BASE_URL e @ ''/room/'' @ roomId)),
                              (''room'', room_summary r)]))))))"

text \<open>\<^verbatim>\<open>POST /api/rooms/:id/init-register\<close>\<close>

definition post_init_register :: "env \<Rightarrow> string \<Rightarrow> string \<Rightarrow> string \<Rightarrow> server_state \<Rightarrow> server_state \<times> response" where
  "post_init_register e roomId uname password st =
     (if uname = [] \<or> password = []
      then (st, Response 400 (error_json ''Username and password are required''))
      else
        (case map_of (rooms st) roomId of
           None \<Rightarrow> (st, Response 404 (error_json ''Room not found''))
         | Some r \<Rightarrow>
             if status r = Started
             then (st, Response 400 (error_json ''Room has already started. Registration is closed.''))
             else
               (case validateUsername uname of
                  Inl msg \<Rightarrow> (st, Response 400 (error_json msg))
                | Inr sanitizedUsername \<Rightarrow>
               (case validatePassword password of
                  Inl msg \<Rightarrow> (st, Response 400 (error_json msg))
                | Inr _ \<Rightarrow>
                    (case find (\<lambda>p. username p = sanitizedUsername) (participants r) of
                       Some existingParticipant \<Rightarrow>
                         if \<not> await (verifyPassword e password (passwordHash existingParticipant))
                         then (st, Response 401 (error_json ''Invalid password for this username''))
                         else (st, Response 200
                                 (JObj [(''keySalt'', JStr (keySalt existingParticipant)),
                                        (''alreadyExists'', JBool True)]))
                     | None \<Rightarrow>
                         (st, Response 200
                            (JObj [(''keySalt'', JStr (generateKeySalt e)),
                                   (''alreadyExists'', JBool False)])))))))"

text \<open>\<^verbatim>\<open>POST /api/rooms/:id/register\<close>\<close>

definition host_reply :: "string \<Rightarrow> room \<Rightarrow> json" where
  "host_reply sanitizedUsername r =
     JObj [(''success'', JBool True), (''isHost'', JBool True),
           (''alreadyRegistered'', JBool True),
           (''message'', JStr ''Host authenticated successfully''),
           (''username'', JStr sanitizedUsername),
           (''roomDetails'',
              JObj [(''id'', JStr (room_id r)), (''name'', JStr (room_name r)),
                    (''hostUsername'', JStr (hostUsername r)),
                    (''participants'', usernames_json (participants r)),
                    (''status'', status_json (status r))])]"

definition signed_in_reply :: "string \<Rightarrow> string \<Rightarrow> room \<Rightarrow> json" where
  "signed_in_reply sanitizedUsername salt r =
     JObj [(''success'', JBool True), (''alreadyRegistered'', JBool True),
           (''isHost'', JBool False),
           (''message'', JStr ''Signed in successfully''),
           (''username'', JStr sanitizedUsername),
           (''keySalt'', JStr salt),
           (''roomDetails'',
              JObj [(''id'', JStr (room_id r)), (''name'', JStr (room_name r)),
                    (''participants'', usernames_json (participants r)),
                    (''status'', status_json (status r))])]"

definition registered_reply :: "bool \<Rightarrow> string \<Rightarrow> string \<Rightarrow> room \<Rightarrow> json" where
  "registered_reply isHost sanitizedUsername salt r =
     JObj [(''success'', JBool True), (''alreadyRegistered'', JBool False),
           (''isHost'', JBool isHost),
           (''message'', JStr ''Registered successfully''),
           (''username'', JStr sanitizedUsername),
           (''keySalt'', JStr salt),
           (''roomDetails'',
              JObj [(''id'', JStr (room_id r)), (''name'', JStr (room_name r)),
                    (''hostUsername'', JStr (hostUsername r)),
                    (''participants'', usernames_json (participants r)),
                    (''status'', status_json (status r))])]"

definition post_register ::
  "env \<Rightarrow> string \<Rightarrow> string \<Rightarrow> string \<Rightarrow> string \<Rightarrow> string \<Rightarrow> server_state \<Rightarrow> server_state \<times> response" where
  "post_register e roomId uname password pubKey bodySalt st0 =
     (case isRateLimited e st0 of
        (True, st) \<Rightarrow> (st, Response 429 (error_json ''Too many requests. Please wait a minute.''))
      | (False, st) \<Rightarrow>
          if uname = [] \<or> password = []
          then (st, Response 400 (error_json ''Username and password are required''))
          else
            (case map_of (rooms st) roomId of
               None \<Rightarrow> (st, Response 404 (error_json ''Room not found''))
             | Some r \<Rightarrow>
                 if status r = Started
                 then (st, Response 400 (error_json ''Room has already started. Registration is closed.''))
                 else
                   (case validateUsername uname of
                      Inl msg \<Rightarrow> (st, Response 400 (error_json msg))
                    | Inr sanitizedUsername \<Rightarrow>
                   (case validatePassword password of
                      Inl msg \<Rightarrow> (st, Response 400 (error_json msg))
                    | Inr _ \<Rightarrow>
                        let loginHash = sanitizedUsername @ password;
                            isHost = await (verifyPassword e loginHash (hostLoginHash r))
                        in
                        if isHost \<and> find (\<lambda>p. username p = sanitizedUsername) (participants r) \<noteq> None
                        then (st, Response 200 (host_reply sanitizedUsername r))
                        else
                          (case find (\<lambda>p. username p = sanitizedUsername) (participants r) of
                             Some existingParticipant \<Rightarrow>
                               if \<not> await (verifyPassword e password (passwordHash existingParticipant))
                               then (st, Response 401 (error_json ''Invalid password for this username''))
                               else if pubKey \<noteq> [] \<and> pubKey \<noteq> ''temp''
                               then
                                 let updated = existingParticipant
                                       \<lparr>publicKey := pubKey,
                                        keySalt := (if bodySalt \<noteq> [] then bodySalt
                                                    else keySalt existingParticipant)\<rparr>;
                                     r1 = r\<lparr>participants :=
                                              update_first (\<lambda>p. username p = sanitizedUsername)
                                                (\<lambda>p. updated) (participants r)\<rparr>;
                                     st1 = st\<lparr>rooms := AList.update roomId r1 (rooms st)\<rparr>;
                                     st2 = fst (saveData e st1)
                                 in (st2, Response 200
                                            (signed_in_reply sanitizedUsername (keySalt updated) r1))
                               else (st, Response 200
                                           (signed_in_reply sanitizedUsername
                                              (keySalt existingParticipant) r))
                           | None \<Rightarrow>
                               if pubKey = []
                               then (st, Response 400 (error_json ''Public key is required for registration''))
                               else
                                 let salt = (if bodySalt = [] then generateKeySalt e else bodySalt);
                                     pwHash = await (hashPassword e password);
                                     r1 = r\<lparr>participants := participants r @
                                              [\<lparr>username = sanitizedUsername, passwordHash = pwHash,
                                                publicKey = pubKey, keySalt = salt,
                                                encryptedAssignment = None\<rparr>]\<rparr>;
                                     st1 = st\<lparr>rooms := AList.update roomId r1 (rooms st)\<rparr>;
                                     st2 = fst (saveData e st1)
                                 in (st2, Response 200
                                            (registered_reply isHost sanitizedUsername salt r1)))))))"

text \<open>\<^verbatim>\<open>POST /api/rooms/:id/host-auth\<close>\<close>

definition post_host_auth :: "env \<Rightarrow> string \<Rightarrow> string \<Rightarrow> string \<Rightarrow> server_state \<Rightarrow> server_state \<times> response" where
  "post_host_auth e roomId uname password st =
     (if uname = [] \<or> password = []
      then (st, Response 400 (error_json ''Username and password are required''))
      else
        (case map_of (rooms st) roomId of
           None \<Rightarrow> (st, Response 404 (error_json ''Room not found''))
         | Some r \<Rightarrow>
             let loginHash = uname @ password
             in if \<not> await (verifyPassword e loginHash (hostLoginHash r))
                then (st, Response 401 (error_json ''Invalid host credentials''))
                else (st, Response 200
                        (JObj [(''id'', JStr (room_id r)), (''name'', JStr (room_name r)),
                               (''hostUsername'', JStr (hostUsername r)),
                               (''participants'',
                                  JArr (map (\<lambda>p. JObj [(''username'', JStr (username p)),
                                                        (''hasAssignment'',
                                                           JBool (encryptedAssignment p \<noteq> None
                                                                  \<and> encryptedAssignment p \<noteq> Some []))])
                                          (participants r))),
                               (''status'', status_json (status r)),
                               (''createdAt'', JStr (createdAt r))]))))"

text \<open>\<^verbatim>\<open>POST /api/rooms/:id/remove-participant\<close>. The result of \<^verbatim>\<open>hashPassword\<close> is
  compared as it is returned, without \<^verbatim>\<open>await\<close>.\<close>

definition post_remove_participant ::
  "env \<Rightarrow> string \<Rightarrow> string \<Rightarrow> string \<Rightarrow> string \<Rightarrow> server_state \<Rightarrow> server_state \<times> response" where
  "post_remove_participant e roomId hostUser hostPassword uname st =
     (if hostUser = [] \<or> hostPassword = [] \<or> uname = []
      then (st, Response 400
                  (error_json ''Host username, password and participant username are required''))
      else
        (case map_of (rooms st) roomId of
           None \<Rightarrow> (st, Response 404 (error_json ''Room not found''))
         | Some r \<Rightarrow>
             let loginHash = hashPassword e (hostUser @ hostPassword)
             in if strict_not_equal (PromiseObject loginHash) (StringValue (hostLoginHash r))
                then (st, Response 401 (error_json ''Invalid host credentials''))
                else if status r = Started
                then (st, Response 400 (error_json ''Cannot remove participants after room has started''))
                else
                  let initialCount = length (participants r);
                      r1 = r\<lparr>participants := filter (\<lambda>p. username p \<noteq> uname) (participants r)\<rparr>;
                      st1 = st\<lparr>rooms := AList.update roomId r1 (rooms st)\<rparr>
                  in if length (participants r1) = initialCount
                     then (st1, Response 404 (error_json ''Participant not found''))
                     else (fst (saveData e st1),
                           Response 200
                             (JObj [(''success'', JBool True),
                                    (''message'', JStr ''Participant removed''),
                                    (''participants'', usernames_json (participants r1))]))))"

text \<open>\<^verbatim>\<open>POST /api/rooms/:id/start\<close>. \<open>encrypt_assignments\<close> is the \<^verbatim>\<open>map\<close> over the
  assignments, which stops at the first one whose encryption throws; \<open>store_assignment\<close> is
  the body of the \<^verbatim>\<open>forEach\<close> that writes the ciphertexts.\<close>

fun encrypt_assignments :: "env \<Rightarrow> participant list \<Rightarrow> assignment list \<Rightarrow> string + (string \<times> string) list" where
  "encrypt_assignments e ps [] = Inr []"
| "encrypt_assignments e ps (a # as) =
     (case find (\<lambda>p. username p = giver a) ps of
        None \<Rightarrow> Inl (''Failed to encrypt assignment for '' @ giver a)
      | Some p \<Rightarrow>
          (case rsa_oaep_encrypt e (publicKey p) (giftRecipient a) of
             None \<Rightarrow> Inl (''Failed to encrypt assignment for '' @ giver a)
           | Some encryptedBase64 \<Rightarrow>
               (case encrypt_assignments e ps as of
                  Inl msg \<Rightarrow> Inl msg
                | Inr rest \<Rightarrow> Inr ((giver a, encryptedBase64) # rest))))"

definition store_assignment :: "string \<times> string \<Rightarrow> participant list \<Rightarrow> participant list" where
  "store_assignment ea ps =
     update_first (\<lambda>p. username p = fst ea) (\<lambda>p. p\<lparr>encryptedAssignment := Some (snd ea)\<rparr>) ps"

definition post_start :: "env \<Rightarrow> string \<Rightarrow> string \<Rightarrow> string \<Rightarrow> server_state \<Rightarrow> server_state \<times> response" where
  "post_start e roomId hostUser hostPassword st =
     (if hostUser = [] \<or> hostPassword = []
      then (st, Response 400 (error_json ''Host username and password are required''))
      else
        (case map_of (rooms st) roomId of
           None \<Rightarrow> (st, Response 404 (error_json ''Room not found''))
         | Some r \<Rightarrow>
             let loginHash = hostUser @ hostPassword
             in if \<not> await (verifyPassword e loginHash (hostLoginHash r))
                then (st, Response 401 (error_json ''Invalid host credentials''))
                else if status r = Started
                then (st, Response 400 (error_json ''Room has already started''))
                else if length (participants r) < 2
                then (st, Response 400 (error_json ''At least 2 participants are required''))
                else
                  let missingKeys = filter (\<lambda>p. publicKey p = []) (participants r)
                  in if length missingKeys > 0
                     then (st, Response 400
                                 (error_json (''Some participants are missing public keys: ''
                                    @ join '', '' (map username missingKeys)
                                    @ ''. They need to re-register.'')))
                     else
                       (case generateSecretSantaAssignments e (participants r) of
                          Inl msg \<Rightarrow> (st, Response 500 (error_json msg))
                        | Inr assignments \<Rightarrow>
                       (case encrypt_assignments e (participants r) assignments of
                          Inl msg \<Rightarrow> (st, Response 500 (error_json msg))
                        | Inr encryptedAssignments \<Rightarrow>
                            let r1 = r\<lparr>participants :=
                                         fold store_assignment encryptedAssignments (participants r),
                                       status := Started\<rparr>;
                                st1 = st\<lparr>rooms := AList.update roomId r1 (rooms st)\<rparr>;
                                st2 = fst (saveData e st1)
                            in (st2, Response 200
                                  (JObj [(''success'', JBool True),
                                         (''message'', JStr ''Room started and assignments generated''),
                                         (''status'', status_json (status r1)),
                                         (''participantCount'', JNum (length (participants r1)))]))))))"

text \<open>\<^verbatim>\<open>POST /api/rooms/:id/login\<close>\<close>

definition post_login :: "env \<Rightarrow> string \<Rightarrow> string \<Rightarrow> string \<Rightarrow> server_state \<Rightarrow> server_state \<times> response" where
  "post_login e roomId uname password st =
     (if uname = [] \<or> password = []
      then (st, Response 400 (error_json ''Username and password are required''))
      else
        (case map_of (rooms st) roomId of
           None \<Rightarrow> (st, Response 404 (error_json ''Room not found''))
         | Some r \<Rightarrow>
             (case find (\<lambda>p. username p = uname) (participants r) of
                None \<Rightarrow> (st, Response 404 (error_json ''User not found in this room''))
              | Some p \<Rightarrow>
                  if \<not> await (verifyPassword e password (passwordHash p))
                  then (st, Response 401 (error_json ''Invalid password''))
                  else if status r \<noteq> Started
                  then (st, Response 400
                              (JObj [(''error'', JStr ''Room has not started yet''),
                                     (''roomStatus'', status_json (status r))]))
                  else (st, Response 200
                          (JObj [(''success'', JBool True),
                                 (''username'', JStr (username p)),
                                 (''roomName'', JStr (room_name r)),
                                 (''keySalt'', JStr (keySalt p)),
                                 (''encryptedAssignment'',
                                    (case encryptedAssignment p of None \<Rightarrow> JNull | Some c \<Rightarrow> JStr c))])))))"

section \<open>Handlers between their awaits\<close>

text \<open>
  The server runs one handler at a time, and a handler gives way to the other requests at
  each \<^verbatim>\<open>await\<close>. The definitions of this section cut \<^verbatim>\<open>register\<close> and
  \<^verbatim>\<open>start\<close> at the awaits of bcrypt: \<^verbatim>\<open>register\<close> after the call of
  \<^verbatim>\<open>verifyPassword\<close> for the host check and after the call of \<^verbatim>\<open>hashPassword\<close>,
  \<^verbatim>\<open>start\<close> after the call of \<^verbatim>\<open>verifyPassword\<close>. A segment runs from one await
  to the next, or to the reply, and returns the reply or the suspended handler: the promise
  it awaits and the variables of the handler that the rest of it reads. The variable
  \<^verbatim>\<open>room\<close> holds the object stored in the registry under the room's id; no route
  removes a room, and \<^verbatim>\<open>POST /api/rooms\<close> stores a new room under a fresh id, so the
  suspended handler keeps the id and its next segment reads the room from the registry as it
  is then. A segment of a handler whose room is not in the registry has no run (\<open>None\<close>).
  The awaits of \<^verbatim>\<open>register\<close> on the path of an existing participant and the awaits
  of \<^verbatim>\<open>saveData\<close> are not cut: each run of the segments is a run of the server.
\<close>

datatype register_task =
    AwaitHostCheck string string string string string "bool promise"
  | AwaitHashPassword string string string string bool "string promise"

datatype start_task = AwaitHostCredentials string "bool promise"

text \<open>\<^verbatim>\<open>register\<close> from its first line to \<^verbatim>\<open>await verifyPassword(hostLoginHash, room.hostLoginHash)\<close>.\<close>

definition register_begin ::
  "env \<Rightarrow> string \<Rightarrow> string \<Rightarrow> string \<Rightarrow> string \<Rightarrow> string \<Rightarrow> server_state
     \<Rightarrow> server_state \<times> (response + register_task)" where
  "register_begin e roomId uname password pubKey bodySalt st0 =
     (case isRateLimited e st0 of
        (True, st) \<Rightarrow> (st, Inl (Response 429 (error_json ''Too many requests. Please wait a minute.'')))
      | (False, st) \<Rightarrow>
          if uname = [] \<or> password = []
          then (st, Inl (Response 400 (error_json ''Username and password are required'')))
          else
            (case map_of (rooms st) roomId of
               None \<Rightarrow> (st, Inl (Response 404 (error_json ''Room not found'')))
             | Some r \<Rightarrow>
                 if status r = Started
                 then (st, Inl (Response 400 (error_json ''Room has already started. Registration is closed.'')))
                 else
                   (case validateUsername uname of
                      Inl msg \<Rightarrow> (st, Inl (Response 400 (error_json msg)))
                    | Inr sanitizedUsername \<Rightarrow>
                   (case validatePassword password of
                      Inl msg \<Rightarrow> (st, Inl (Response 400 (error_json msg)))
                    | Inr _ \<Rightarrow>
                        let loginHash = sanitizedUsername @ password
                        in (st, Inr (AwaitHostCheck roomId sanitizedUsername password pubKey bodySalt
                                       (verifyPassword e loginHash (hostLoginHash r))))))))"

text \<open>\<^verbatim>\<open>register\<close> from the value of an awaited promise on: from the host check to the reply or
  to \<^verbatim>\<open>await hashPassword(password)\<close>, and from the password hash to the reply. The
  second does not read \<^verbatim>\<open>room.status\<close> before it pushes the participant.\<close>

definition register_resume ::
  "env \<Rightarrow> register_task \<Rightarrow> server_state \<Rightarrow> (server_state \<times> (response + register_task)) option" where
  "register_resume e task st =
     (case task of
        AwaitHostCheck roomId sanitizedUsername password pubKey bodySalt verified \<Rightarrow>
          (case map_of (rooms st) roomId of
             None \<Rightarrow> None
           | Some r \<Rightarrow>
               Some
                 (let isHost = await verified
                  in
                  if isHost \<and> find (\<lambda>p. username p = sanitizedUsername) (participants r) \<noteq> None
                  then (st, Inl (Response 200 (host_reply sanitizedUsername r)))
                  else
                    (case find (\<lambda>p. username p = sanitizedUsername) (participants r) of
                       Some existingParticipant \<Rightarrow>
                         if \<not> await (verifyPassword e password (passwordHash existingParticipant))
                         then (st, Inl (Response 401 (error_json ''Invalid password for this username'')))
                         else if pubKey \<noteq> [] \<and> pubKey \<noteq> ''temp''
                         then
                           let updated = existingParticipant
                                 \<lparr>publicKey := pubKey,
                                  keySalt := (if bodySalt \<noteq> [] then bodySalt
                                              else keySalt existingParticipant)\<rparr>;
                               r1 = r\<lparr>participants :=
                                        update_first (\<lambda>p. username p = sanitizedUsername)
                                          (\<lambda>p. updated) (participants r)\<rparr>;
                               st1 = st\<lparr>rooms := AList.update roomId r1 (rooms st)\<rparr>;
                               st2 = fst (saveData e st1)
                           in (st2, Inl (Response 200
                                      (signed_in_reply sanitizedUsername (keySalt updated) r1)))
                         else (st, Inl (Response 200
                                     (signed_in_reply sanitizedUsername
                                        (keySalt existingParticipant) r)))
                     | None \<Rightarrow>
                         if pubKey = []
                         then (st, Inl (Response 400 (error_json ''Public key is required for registration'')))
                         else
                           let salt = (if bodySalt = [] then generateKeySalt e else bodySalt)
                           in (st, Inr (AwaitHashPassword roomId sanitizedUsername pubKey salt isHost
                                          (hashPassword e password))))))
      | AwaitHashPassword roomId sanitizedUsername pubKey salt isHost hashed \<Rightarrow>
          (case map_of (rooms st) roomId of
             None \<Rightarrow> None
           | Some r \<Rightarrow>
               Some
                 (let pwHash = await hashed;
                      r1 = r\<lparr>participants := participants r @
                               [\<lparr>username = sanitizedUsername, passwordHash = pwHash,
                                 publicKey = pubKey, keySalt = salt,
                                 encryptedAssignment = None\<rparr>]\<rparr>;
                      st1 = st\<lparr>rooms := AList.update roomId r1 (rooms st)\<rparr>;
                      st2 = fst (saveData e st1)
                  in (st2, Inl (Response 200
                             (registered_reply isHost sanitizedUsername salt r1))))))"

text \<open>\<^verbatim>\<open>start\<close> from its first line to \<^verbatim>\<open>await verifyPassword(loginHash, room.hostLoginHash)\<close>.\<close>

definition start_begin ::
  "env \<Rightarrow> string \<Rightarrow> string \<Rightarrow> string \<Rightarrow> server_state \<Rightarrow> server_state \<times> (response + start_task)" where
  "start_begin e roomId hostUser hostPassword st =
     (if hostUser = [] \<or> hostPassword = []
      then (st, Inl (Response 400 (error_json ''Host username and password are required'')))
      else
        (case map_of (rooms st) roomId of
           None \<Rightarrow> (st, Inl (Response 404 (error_json ''Room not found'')))
         | Some r \<Rightarrow>
             let loginHash = hostUser @ hostPassword
             in (st, Inr (AwaitHostCredentials roomId
                            (verifyPassword e loginHash (hostLoginHash r))))))"

text \<open>\<^verbatim>\<open>start\<close> from the outcome of the credentials check to its reply: no await before
  \<^verbatim>\<open>room.status = 'started'\<close>.\<close>

definition start_resume :: "env \<Rightarrow> start_task \<Rightarrow> server_state \<Rightarrow> (server_state \<times> response) option" where
  "start_resume e task st =
     (case task of
        AwaitHostCredentials roomId verified \<Rightarrow>
          (case map_of (rooms st) roomId of
             None \<Rightarrow> None
           | Some r \<Rightarrow>
               Some
                 (if \<not> await verified
                  then (st, Response 401 (error_json ''Invalid host credentials''))
                  else if status r = Started
                  then (st, Response 400 (error_json ''Room has already started''))
                  else if length (participants r) < 2
                  then (st, Response 400 (error_json ''At least 2 participants are required''))
                  else
                    let missingKeys = filter (\<lambda>p. publicKey p = []) (participants r)
                    in if length missingKeys > 0
                       then (st, Response 400
                                   (error_json (''Some participants are missing public keys: ''
                                      @ join '', '' (map username missingKeys)
                                      @ ''. They need to re-register.'')))
                       else
                         (case generateSecretSantaAssignments e (participants r) of
                            Inl msg \<Rightarrow> (st, Response 500 (error_json msg))
                          | Inr assignments \<Rightarrow>
                         (case encrypt_assignments e (participants r) assignments of
                            Inl msg \<Rightarrow> (st, Response 500 (error_json msg))
                          | Inr encryptedAssignments \<Rightarrow>
                              let r1 = r\<lparr>participants :=
                                           fold store_assignment encryptedAssignments (participants r),
                                         status := Started\<rparr>;
                                  st1 = st\<lparr>rooms := AList.update roomId r1 (rooms st)\<rparr>;
                                  st2 = fst (saveData e st1)
                              in (st2, Response 200
                                    (JObj [(''success'', JBool True),
                                           (''message'', JStr ''Room started and assignments generated''),
                                           (''status'', status_json (status r1)),
                                           (''participantCount'', JNum (length (participants r1)))])))))))"

text \<open>A handler whose segments run one after the other, no other request in between.\<close>

definition register_uninterrupted ::
  "env \<Rightarrow> string \<Rightarrow> string \<Rightarrow> string \<Rightarrow> string \<Rightarrow> string \<Rightarrow> server_state
     \<Rightarrow> (server_state \<times> response) option" where
  "register_uninterrupted e roomId uname password pubKey bodySalt st0 =
     (case register_begin e roomId uname password pubKey bodySalt st0 of
        (st, Inl reply) \<Rightarrow> Some (st, reply)
      | (st, Inr hostCheck) \<Rightarrow>
          (case register_resume e hostCheck st of
             None \<Rightarrow> None
           | Some (st1, Inl reply) \<Rightarrow> Some (st1, reply)
           | Some (st1, Inr hashing) \<Rightarrow>
               (case register_resume e hashing st1 of
                  None \<Rightarrow> None
                | Some (st2, Inl reply) \<Rightarrow> Some (st2, reply)
                | Some (st2, Inr again) \<Rightarrow> None)))"

definition start_uninterrupted ::
  "env \<Rightarrow> string \<Rightarrow> string \<Rightarrow> string \<Rightarrow> server_state \<Rightarrow> (server_state \<times> response) option" where
  "start_uninterrupted e roomId hostUser hostPassword st =
     (case start_begin e roomId hostUser hostPassword st of
        (st1, Inl reply) \<Rightarrow> Some (st1, reply)
      | (st1, Inr credentials) \<Rightarrow> start_resume e credentials st1)"

section \<open>Requests and the invariant of the room data model\<close>

datatype request =
    CreateRoom string string string
  | InitRegister string string string
  | Register string string string string string
  | HostAuth string string string
  | RemoveParticipant string string string string
  | StartRoom string string string
  | Login string string string

fun handle :: "env \<Rightarrow> request \<Rightarrow> server_state \<Rightarrow> server_state \<times> response" where
  "handle e (CreateRoom nm hostUser hostPassword) st = post_rooms e nm hostUser hostPassword st"
| "handle e (InitRegister roomId uname password) st = post_init_register e roomId uname password st"
| "handle e (Register roomId uname password pubKey bodySalt) st =
     post_register e roomId uname password pubKey bodySalt st"
| "handle e (HostAuth roomId uname password) st = post_host_auth e roomId uname password st"
| "handle e (RemoveParticipant roomId hostUser hostPassword uname) st =
     post_remove_participant e roomId hostUser hostPassword uname st"
| "handle e (StartRoom roomId hostUser hostPassword) st = post_start e roomId hostUser hostPassword st"
| "handle e (Login roomId uname password) st = post_login e roomId uname password st"

text \<open>The invariant of the room data model.\<close>

definition room_invariant :: "room \<Rightarrow> bool" where
  "room_invariant r =
     ((status r = Started \<longrightarrow> list_all (\<lambda>p. encryptedAssignment p \<noteq> None) (participants r))
      \<and> (status r = Open \<longrightarrow> list_all (\<lambda>p. encryptedAssignment p = None) (participants r)))"

definition rooms_invariant :: "server_state \<Rightarrow> bool" where
  "rooms_invariant st = list_all (\<lambda>kv. room_invariant (snd kv)) (rooms st)"

text \<open>The invariant that is inductive: the data-model invariant, and no two participants of
  a room share a name.\<close>

definition room_ok :: "room \<Rightarrow> bool" where
  "room_ok r = (room_invariant r \<and> distinct (map username (participants r)))"

definition state_ok :: "server_state \<Rightarrow> bool" where
  "state_ok st = (\<forall>kv\<in>set (rooms st). room_ok (snd kv))"

section \<open>Example values\<close>

text \<open>A world in which bcrypt is the tagged password, the first shuffle of every request
  leaves the order as it is and the later ones rotate it, and RSA fails on the key
  \<open>''bad''\<close> only.\<close>

definition demo_env :: env where
  "demo_env =
     \<lparr>clientId = ''10.0.0.7'', date_now = 1000,
      created_iso = ''2025-12-07T12:00:00.000Z'', save_iso = ''2025-12-07T12:00:01.000Z'',
      uuidv4 = ''r1'', randomBytes_hex = ''a7f9'',
      bcrypt_hash = (\<lambda>pw. ''bcrypt:'' @ pw),
      bcrypt_compare = (\<lambda>pw h. h = ''bcrypt:'' @ pw),
      sort_random = (\<lambda>k xs. if k = 0 then xs else rotate1 xs),
      rsa_oaep_encrypt = (\<lambda>pem m. if pem = ''bad'' then None else Some (pem @ '':'' @ m)),
      readFile = (\<lambda>path. None), mkdir_fails = False,
      json_stringify = (\<lambda>rs. concat (map fst rs)),
      BASE_URL = ''http://localhost:8003''\<rparr>"

definition demo_participant :: "string \<Rightarrow> string \<Rightarrow> string \<Rightarrow> string \<Rightarrow> participant" where
  "demo_participant u pw pem salt =
     \<lparr>username = u, passwordHash = ''bcrypt:'' @ pw, publicKey = pem, keySalt = salt,
      encryptedAssignment = None\<rparr>"

definition demo_participants :: "participant list" where
  "demo_participants =
     [demo_participant ''alice'' ''alicepw'' ''pemA'' ''s1'',
      demo_participant ''bob'' ''bobpw'' ''pemB'' ''s2'',
      demo_participant ''carol'' ''carolpw'' ''pemC'' ''s3'']"

definition demo_room :: "participant list \<Rightarrow> room" where
  "demo_room ps =
     \<lparr>room_id = ''r1'', room_name = ''Office party'', hostUsername = ''santa'',
      hostLoginHash = ''bcrypt:santaclaus1'', participants = ps, status = Open,
      createdAt = ''2025-12-07T12:00:00.000Z''\<rparr>"

definition demo_state :: "participant list \<Rightarrow> server_state" where
  "demo_state ps = \<lparr>rooms = [(''r1'', demo_room ps)], rateLimitMap = [], saveInProgress = False\<rparr>"

definition empty_state :: server_state where
  "empty_state = \<lparr>rooms = [], rateLimitMap = [], saveInProgress = False\<rparr>"

text \<open>A race of a registration with the start of the room. From the empty server the host
  creates a room and alice and bob register, each handler from its first line to its
  reply. Then carol's \<^verbatim>\<open>register\<close> runs to its first await, having found the room
  open; the host's \<^verbatim>\<open>start\<close> runs to its await; \<^verbatim>\<open>register\<close> goes on to
  \<^verbatim>\<open>await hashPassword\<close>; \<^verbatim>\<open>start\<close> goes on to its reply; \<^verbatim>\<open>register\<close> goes
  on to its reply. The result is the state at the end with the two replies.\<close>

definition race_before :: server_state where
  "race_before =
     fst (handle demo_env (Register ''r1'' ''bob'' ''bobpw'' ''pemB'' ''s2'')
       (fst (handle demo_env (Register ''r1'' ''alice'' ''alicepw'' ''pemA'' ''s1'')
         (fst (handle demo_env (CreateRoom ''Office party'' ''santa'' ''claus1'') empty_state)))))"

definition race_run :: "(server_state \<times> response \<times> response) option" where
  "race_run =
     (case register_begin demo_env ''r1'' ''carol'' ''carolpw'' ''pemC'' ''s3'' race_before of
        (st1, Inl reply) \<Rightarrow> None
      | (st1, Inr hostCheck) \<Rightarrow>
     (case start_begin demo_env ''r1'' ''santa'' ''claus1'' st1 of
        (st2, Inl reply) \<Rightarrow> None
      | (st2, Inr credentials) \<Rightarrow>
     (case register_resume demo_env hostCheck st2 of
        None \<Rightarrow> None
      | Some (st3, Inl reply) \<Rightarrow> None
      | Some (st3, Inr hashing) \<Rightarrow>
     (case start_resume demo_env credentials st3 of
        None \<Rightarrow> None
      | Some (st4, startReply) \<Rightarrow>
     (case register_resume demo_env hashing st4 of
        None \<Rightarrow> None
      | Some (st5, Inl registerReply) \<Rightarrow> Some (st5, startReply, registerReply)
      | Some (st5, Inr again) \<Rightarrow> None)))))"

text \<open>What a room stores of the draw: its status and, per participant, the ciphertext.\<close>

definition stored_assignments :: "server_state \<Rightarrow> string \<Rightarrow> (room_status \<times> (string \<times> string option) list) option" where
  "stored_assignments st roomId =
     map_option (\<lambda>r. (status r, map (\<lambda>p. (username p, encryptedAssignment p)) (participants r)))
       (map_of (rooms st) roomId)"

text \<open>A world whose shuffles never move a name, and a room in which one public key cannot
  be used.\<close>

definition demo_env_identity :: env where
  "demo_env_identity = demo_env\<lparr>sort_random := (\<lambda>k xs. xs)\<rparr>"

definition demo_bad_key :: "participant list" where
  "demo_bad_key =
     [demo_participant ''alice'' ''alicepw'' ''pemA'' ''s1'',
      demo_participant ''bob'' ''bobpw'' ''bad'' ''s2'']"


text \<open>Reading a reply: its status code, its body, a field of a JSON object.\<close>

definition json_field :: "string \<Rightarrow> json \<Rightarrow> json option" where
  "json_field k j = (case j of JObj kvs \<Rightarrow> map_of kvs k | _ \<Rightarrow> None)"

fun status_code :: "response \<Rightarrow> nat" where
  "status_code (Response c b) = c"

fun reply_body :: "response \<Rightarrow> json" where
  "reply_body (Response c b) = b"


text \<open>A world whose first \<open>n\<close> shuffles of a request leave the order as it is and whose
  later ones rotate it.\<close>

definition demo_env_late :: "nat \<Rightarrow> env" where
  "demo_env_late n = demo_env\<lparr>sort_random := (\<lambda>k xs. if k < n then xs else rotate1 xs)\<rparr>"

section \<open>The redraw loop\<close>

lemma for_loop_Some:
  "for_loop us sh i acc = Some as \<Longrightarrow>
     as = acc @ map (\<lambda>j. \<lparr>giver = us ! j, giftRecipient = sh ! j\<rparr>) [i..<length us]
     \<and> (\<forall>j. i \<le> j \<and> j < length us \<longrightarrow> us ! j \<noteq> sh ! j)"
proof (induction us sh i acc rule: for_loop.induct)
  case (1 usernames shuffled i assignments)
  show ?case
  proof (cases "i < length usernames")
    case False
    with "1.prems" show ?thesis by (auto simp: for_loop.simps)
  next
    case True
    from True "1.prems" have neq: "usernames ! i \<noteq> shuffled ! i"
      by (auto simp: for_loop.simps[of usernames shuffled i] Let_def split: if_splits)
    with True "1.prems" have rec: "for_loop usernames shuffled (i + 1)
        (assignments @ [\<lparr>giver = usernames ! i, giftRecipient = shuffled ! i\<rparr>]) = Some as"
      by (simp add: for_loop.simps[of usernames shuffled i] Let_def)
    from "1.IH"[OF True refl refl neq rec] True neq show ?thesis
      by (auto simp: upt_conv_Cons elim: le_neq_implies_less[rotated] dest: le_neq_implies_less)
  qed
qed

lemma for_loop_None:
  "for_loop us sh i acc = None \<Longrightarrow> \<exists>j. i \<le> j \<and> j < length us \<and> us ! j = sh ! j"
proof (induction us sh i acc rule: for_loop.induct)
  case (1 usernames shuffled i assignments)
  show ?case
  proof (cases "i < length usernames")
    case False
    with "1.prems" show ?thesis by (simp add: for_loop.simps)
  next
    case True
    show ?thesis
    proof (cases "usernames ! i = shuffled ! i")
      case True
      with \<open>i < length usernames\<close> show ?thesis by blast
    next
      case False
      with True "1.prems" have rec: "for_loop usernames shuffled (i + 1)
        (assignments @ [\<lparr>giver = usernames ! i, giftRecipient = shuffled ! i\<rparr>]) = None"
        by (simp add: for_loop.simps[of usernames shuffled i] Let_def)
      from "1.IH"[OF True refl refl False rec] show ?thesis
        by (metis Suc_eq_plus1 Suc_leD)
    qed
  qed
qed

lemma while_loop_Inr:
  "while_loop e us k = Inr as \<Longrightarrow>
     \<exists>j. k \<le> j \<and> j < maxAttempts \<and> for_loop us (sort_random e j us) 0 [] = Some as"
proof (induction e us k rule: while_loop.induct)
  case (1 e usernames attempts)
  show ?case
  proof (cases "attempts < maxAttempts")
    case False
    with "1.prems" show ?thesis by (simp add: while_loop.simps)
  next
    case True
    show ?thesis
    proof (cases "for_loop usernames (sort_random e attempts usernames) 0 []")
      case None
      with True "1.prems" have "while_loop e usernames (attempts + 1) = Inr as"
        by (simp add: while_loop.simps[of e usernames attempts])
      from "1.IH"[OF True None this] show ?thesis
        by (metis Suc_eq_plus1 Suc_leD)
    next
      case (Some a)
      with True "1.prems" have "a = as"
        by (simp add: while_loop.simps[of e usernames attempts])
      with Some True show ?thesis by blast
    qed
  qed
qed

lemma while_loop_Inl:
  "(\<forall>j. k \<le> j \<and> j < maxAttempts \<longrightarrow> for_loop us (sort_random e j us) 0 [] = None) \<Longrightarrow>
     while_loop e us k = Inl ''Failed to generate valid Secret Santa assignments''"
proof (induction e us k rule: while_loop.induct)
  case (1 e usernames attempts)
  show ?case
  proof (cases "attempts < maxAttempts")
    case False
    then show ?thesis by (simp add: while_loop.simps)
  next
    case True
    with "1.prems" have None: "for_loop usernames (sort_random e attempts usernames) 0 [] = None"
      by simp
    have "while_loop e usernames (attempts + 1) = Inl ''Failed to generate valid Secret Santa assignments''"
      using "1.IH"[OF True None] "1.prems" by simp
    with True None show ?thesis
      by (simp add: while_loop.simps[of e usernames attempts])
  qed
qed

lemma while_loop_cong:
  "(\<forall>j. k \<le> j \<and> j < maxAttempts \<longrightarrow> sort_random e j us = sort_random e' j us) \<Longrightarrow>
     while_loop e us k = while_loop e' us k"
proof (induction e us k rule: while_loop.induct)
  case (1 e usernames attempts)
  show ?case
  proof (cases "attempts < maxAttempts")
    case False
    then show ?thesis by (simp add: while_loop.simps)
  next
    case True
    with "1.prems" have eq: "sort_random e attempts usernames = sort_random e' attempts usernames"
      by simp
    show ?thesis
    proof (cases "for_loop usernames (sort_random e attempts usernames) 0 []")
      case None
      have "while_loop e usernames (attempts + 1) = while_loop e' usernames (attempts + 1)"
        using "1.IH"[OF True None] "1.prems" by simp
      with True None eq show ?thesis
        by (simp add: while_loop.simps[of e usernames attempts] while_loop.simps[of e' usernames attempts])
    next
      case (Some a)
      with True eq show ?thesis
        by (simp add: while_loop.simps[of e usernames attempts] while_loop.simps[of e' usernames attempts])
    qed
  qed
qed

lemma zip_lookup_bij:
  assumes d: "distinct us" and p: "mset sh = mset us"
  shows "bij_betw (\<lambda>g. the (map_of (zip us sh) g)) (set us) (set us)"
proof -
  let ?f = "\<lambda>g. the (map_of (zip us sh) g)"
  have len: "length sh = length us" using p by (metis size_mset)
  have dsh: "distinct sh" using d p by (metis mset_eq_imp_distinct_iff)
  have ssh: "set sh = set us" using p by (metis mset_eq_setD)
  have at: "?f (us ! j) = sh ! j" if "j < length us" for j
    using that len d by (simp add: map_of_zip_nth)
  have inj: "inj_on ?f (set us)"
  proof (rule inj_onI)
    fix x y assume "x \<in> set us" "y \<in> set us" and eq: "?f x = ?f y"
    then obtain i j where i: "i < length us" "x = us ! i" and j: "j < length us" "y = us ! j"
      by (metis in_set_conv_nth)
    with eq at have "sh ! i = sh ! j" by simp
    with dsh i j len have "i = j" by (simp add: nth_eq_iff_index_eq)
    with i j show "x = y" by simp
  qed
  have mp: "map ?f us = sh"
    by (rule nth_equalityI) (simp_all add: at len)
  have img: "?f ` set us = set us"
  proof -
    have "?f ` set us = set (map ?f us)" by simp
    also have "\<dots> = set us" unfolding mp by (rule ssh)
    finally show ?thesis .
  qed
  from inj img show ?thesis by (simp add: bij_betw_def)
qed

lemma for_loop_graph:
  assumes d: "distinct us" and p: "mset sh = mset us"
    and r: "for_loop us sh 0 [] = Some as"
  shows "\<exists>f. bij_betw f (set us) (set us) \<and> (\<forall>g\<in>set us. f g \<noteq> g)
            \<and> as = map (\<lambda>g. \<lparr>giver = g, giftRecipient = f g\<rparr>) us
            \<and> map f us = sh"
proof -
  let ?f = "\<lambda>g. the (map_of (zip us sh) g)"
  have len: "length sh = length us" using p by (metis size_mset)
  have at: "?f (us ! j) = sh ! j" if "j < length us" for j
    using that len d by (simp add: map_of_zip_nth)
  from for_loop_Some[OF r]
  have as: "as = map (\<lambda>j. \<lparr>giver = us ! j, giftRecipient = sh ! j\<rparr>) [0..<length us]"
    and nofix: "\<forall>j<length us. us ! j \<noteq> sh ! j" by simp_all
  have "as = map (\<lambda>g. \<lparr>giver = g, giftRecipient = ?f g\<rparr>) us"
    unfolding as by (rule nth_equalityI) (simp_all add: at)
  moreover have "\<forall>g\<in>set us. ?f g \<noteq> g"
    using nofix at by (metis in_set_conv_nth)
  moreover have "map ?f us = sh"
    by (rule nth_equalityI) (simp_all add: at len)
  ultimately show ?thesis using zip_lookup_bij[OF d p] by blast
qed

lemma for_loop_fixed_point:
  assumes "i \<le> j" and "j < length us" and "us ! j = sh ! j"
  shows "for_loop us sh i acc = None"
proof (cases "for_loop us sh i acc")
  case None
  then show ?thesis .
next
  case (Some as)
  from for_loop_Some[OF Some] assms show ?thesis by blast
qed

lemma for_loop_no_fixed_point:
  assumes "\<forall>m<length us. us ! m \<noteq> sh ! m"
  shows "for_loop us sh 0 []
           = Some (map (\<lambda>m. \<lparr>giver = us ! m, giftRecipient = sh ! m\<rparr>) [0..<length us])"
proof (cases "for_loop us sh 0 []")
  case None
  from for_loop_None[OF None] assms show ?thesis by blast
next
  case (Some as)
  from for_loop_Some[OF Some] Some show ?thesis by simp
qed

lemma while_loop_first_valid:
  "k \<le> j \<Longrightarrow> j < maxAttempts \<Longrightarrow>
   (\<forall>i. k \<le> i \<and> i < j \<longrightarrow> for_loop us (sort_random e i us) 0 [] = None) \<Longrightarrow>
   for_loop us (sort_random e j us) 0 [] = Some as \<Longrightarrow>
   while_loop e us k = Inr as"
proof (induction e us k rule: while_loop.induct)
  case (1 e usernames attempts)
  from "1.prems"(1,2) have lt: "attempts < maxAttempts" by simp
  show ?case
  proof (cases "attempts = j")
    case True
    with lt "1.prems"(4) show ?thesis
      by (simp add: while_loop.simps[of e usernames j])
  next
    case False
    with "1.prems"(1) have less: "attempts < j" by simp
    with "1.prems"(3) have None: "for_loop usernames (sort_random e attempts usernames) 0 [] = None"
      by simp
    have "while_loop e usernames (attempts + 1) = Inr as"
      using "1.IH"[OF lt None] less "1.prems"(2,3,4) by simp
    with lt None show ?thesis
      by (simp add: while_loop.simps[of e usernames attempts])
  qed
qed

text \<open>
  Claim C2. Let the participants be at least two with distinct names, and let each of the
  first 100 shuffles of the redraw loop be a rearrangement of the names (what sorting a copy
  of the array gives). Whenever \<open>generateSecretSantaAssignments\<close> returns, its result lists
  every giver once, in the order of the participants, each with the receiver \<open>f giver\<close> of
  a bijection \<open>f\<close> on the names that has no fixed point. The loop redraws until a draw
  moves every name and stops after 100 draws: when draw \<open>j\<close>, one of the first 100, is the
  first that leaves no name in its place, the function returns that draw paired with the
  names; when each of the first 100 draws leaves some name in its place, the function throws
  \<^verbatim>\<open>Failed to generate valid Secret Santa assignments\<close>; and it never looks at a draw
  after the hundredth: two worlds that agree on the first hundred shuffles give the same
  outcome.
\<close>

theorem generateSecretSantaAssignments_derangement:
  assumes "2 \<le> length ps" and "distinct (map username ps)"
    and "\<forall>k<100. mset (sort_random e k (map username ps)) = mset (map username ps)"
  shows
    "(\<forall>as. generateSecretSantaAssignments e ps = Inr as \<longrightarrow>
        (\<exists>f. bij_betw f (set (map username ps)) (set (map username ps))
           \<and> (\<forall>g\<in>set (map username ps). f g \<noteq> g)
           \<and> as = map (\<lambda>g. \<lparr>giver = g, giftRecipient = f g\<rparr>) (map username ps)))
     \<and> (\<forall>j<100.
           (\<forall>k<j. \<exists>i<length ps. map username ps ! i = sort_random e k (map username ps) ! i)
           \<and> (\<forall>i<length ps. map username ps ! i \<noteq> sort_random e j (map username ps) ! i)
          \<longrightarrow> generateSecretSantaAssignments e ps
                = Inr (map (\<lambda>i. \<lparr>giver = map username ps ! i,
                                    giftRecipient = sort_random e j (map username ps) ! i\<rparr>)
                         [0..<length ps]))
     \<and> ((\<forall>k<100. \<exists>i<length ps.
             map username ps ! i = sort_random e k (map username ps) ! i)
          \<longrightarrow> generateSecretSantaAssignments e ps
                = Inl ''Failed to generate valid Secret Santa assignments'')
     \<and> (\<forall>e'::env. (\<forall>k<100. sort_random e' k (map username ps) = sort_random e k (map username ps))
          \<longrightarrow> generateSecretSantaAssignments e' ps = generateSecretSantaAssignments e ps)"
proof (intro conjI allI impI)
  fix as assume "generateSecretSantaAssignments e ps = Inr as"
  then obtain j where j: "j < maxAttempts"
      and r: "for_loop (map username ps) (sort_random e j (map username ps)) 0 [] = Some as"
    unfolding generateSecretSantaAssignments_def by (blast dest: while_loop_Inr)
  from assms(3) j have "mset (sort_random e j (map username ps)) = mset (map username ps)"
    by (simp add: maxAttempts_def)
  from for_loop_graph[OF assms(2) this r]
  show "\<exists>f. bij_betw f (set (map username ps)) (set (map username ps))
           \<and> (\<forall>g\<in>set (map username ps). f g \<noteq> g)
           \<and> as = map (\<lambda>g. \<lparr>giver = g, giftRecipient = f g\<rparr>) (map username ps)"
    by blast
next
  fix j :: nat
  assume j: "j < 100"
    and first: "(\<forall>k<j. \<exists>i<length ps. map username ps ! i = sort_random e k (map username ps) ! i)
           \<and> (\<forall>i<length ps. map username ps ! i \<noteq> sort_random e j (map username ps) ! i)"
  let ?us = "map username ps"
  have earlier: "for_loop ?us (sort_random e k ?us) 0 [] = None" if "k < j" for k
  proof -
    from first that obtain i where "i < length ps" "?us ! i = sort_random e k ?us ! i" by blast
    then show ?thesis by (intro for_loop_fixed_point[of 0 i]) simp_all
  qed
  have valid: "for_loop ?us (sort_random e j ?us) 0 []
      = Some (map (\<lambda>m. \<lparr>giver = ?us ! m, giftRecipient = sort_random e j ?us ! m\<rparr>) [0..<length ?us])"
    using first by (intro for_loop_no_fixed_point) simp
  have "while_loop e ?us 0
      = Inr (map (\<lambda>m. \<lparr>giver = ?us ! m, giftRecipient = sort_random e j ?us ! m\<rparr>) [0..<length ?us])"
    using j earlier by (intro while_loop_first_valid[OF _ _ _ valid]) (simp_all add: maxAttempts_def)
  then show "generateSecretSantaAssignments e ps
                = Inr (map (\<lambda>i. \<lparr>giver = map username ps ! i,
                                    giftRecipient = sort_random e j (map username ps) ! i\<rparr>)
                         [0..<length ps])"
    by (simp add: generateSecretSantaAssignments_def)
next
  assume fp: "\<forall>k<100. \<exists>i<length ps.
             map username ps ! i = sort_random e k (map username ps) ! i"
  have "for_loop (map username ps) (sort_random e k (map username ps)) 0 [] = None"
    if "k < maxAttempts" for k
  proof -
    from fp that obtain i where "i < length ps"
      "map username ps ! i = sort_random e k (map username ps) ! i"
      by (auto simp: maxAttempts_def)
    then show ?thesis by (intro for_loop_fixed_point[of 0 i]) simp_all
  qed
  then show "generateSecretSantaAssignments e ps = Inl ''Failed to generate valid Secret Santa assignments''"
    unfolding generateSecretSantaAssignments_def by (intro while_loop_Inl) simp
next
  fix e' :: env assume "\<forall>k<100. sort_random e' k (map username ps) = sort_random e k (map username ps)"
  then show "generateSecretSantaAssignments e' ps = generateSecretSantaAssignments e ps"
    unfolding generateSecretSantaAssignments_def
    by (intro while_loop_cong) (simp add: maxAttempts_def)
qed

text \<open>Three participants. Where the first draw is the identity and the later ones rotate
  the names, the first draw is thrown away and the second is returned; where the first 99
  draws are the identity, the hundredth is returned; where the first 100 are, the function
  throws although draw 101 would move every name; where no draw moves a name, it throws;
  and the outcome does not depend on the rest of the world.\<close>

theorem generateSecretSantaAssignments_derangement_witness:
  "2 \<le> length demo_participants \<and> distinct (map username demo_participants)
   \<and> generateSecretSantaAssignments demo_env demo_participants
       = Inr [\<lparr>giver = ''alice'', giftRecipient = ''bob''\<rparr>,
              \<lparr>giver = ''bob'', giftRecipient = ''carol''\<rparr>,
              \<lparr>giver = ''carol'', giftRecipient = ''alice''\<rparr>]
   \<and> (\<exists>f. bij_betw f (set (map username demo_participants)) (set (map username demo_participants))
          \<and> (\<forall>g\<in>set (map username demo_participants). f g \<noteq> g)
          \<and> [\<lparr>giver = ''alice'', giftRecipient = ''bob''\<rparr>,
              \<lparr>giver = ''bob'', giftRecipient = ''carol''\<rparr>,
              \<lparr>giver = ''carol'', giftRecipient = ''alice''\<rparr>]
             = map (\<lambda>g. \<lparr>giver = g, giftRecipient = f g\<rparr>) (map username demo_participants))
   \<and> generateSecretSantaAssignments (demo_env_late 99) demo_participants
       = Inr [\<lparr>giver = ''alice'', giftRecipient = ''bob''\<rparr>,
              \<lparr>giver = ''bob'', giftRecipient = ''carol''\<rparr>,
              \<lparr>giver = ''carol'', giftRecipient = ''alice''\<rparr>]
   \<and> generateSecretSantaAssignments (demo_env_late 100) demo_participants
       = Inl ''Failed to generate valid Secret Santa assignments''
   \<and> sort_random (demo_env_late 100) 100 (map username demo_participants)
       = [''bob'', ''carol'', ''alice'']
   \<and> generateSecretSantaAssignments demo_env_identity demo_participants
       = Inl ''Failed to generate valid Secret Santa assignments''
   \<and> generateSecretSantaAssignments (demo_env\<lparr>uuidv4 := ''r2''\<rparr>) demo_participants
       = generateSecretSantaAssignments demo_env demo_participants"
proof -
  have h1: "2 \<le> length demo_participants"
    by (simp add: demo_participants_def)
  have len: "length demo_participants = 3"
    by (simp add: demo_participants_def)
  have names: "map username demo_participants = [''alice'', ''bob'', ''carol'']"
    by (simp add: demo_participants_def demo_participant_def)
  have h2: "distinct (map username demo_participants)"
    unfolding names by simp
  have h3: "\<forall>k<100. mset (sort_random demo_env k (map username demo_participants))
              = mset (map username demo_participants)"
    unfolding names by (simp add: demo_env_def)
  have h3': "\<forall>k<100. mset (sort_random demo_env_identity k (map username demo_participants))
              = mset (map username demo_participants)"
    by (simp add: demo_env_identity_def)
  have h3l: "\<forall>k<100. mset (sort_random (demo_env_late n) k (map username demo_participants))
              = mset (map username demo_participants)" for n
    unfolding names by (simp add: demo_env_late_def)
  have moved: "\<forall>i<length demo_participants.
      map username demo_participants ! i \<noteq> rotate1 (map username demo_participants) ! i"
    unfolding names len by (auto simp: less_Suc_eq numeral_3_eq_3)
  have first: "(\<forall>k<1. \<exists>i<length demo_participants. map username demo_participants ! i
                   = sort_random demo_env k (map username demo_participants) ! i)
       \<and> (\<forall>i<length demo_participants. map username demo_participants ! i
                   \<noteq> sort_random demo_env 1 (map username demo_participants) ! i)"
    using moved h1 by (auto simp: demo_env_def intro!: exI[of _ 0])
  have drawn: "map (\<lambda>i. \<lparr>giver = map username demo_participants ! i,
                     giftRecipient = rotate1 (map username demo_participants) ! i\<rparr>)
                 [0..<length demo_participants]
       = [\<lparr>giver = ''alice'', giftRecipient = ''bob''\<rparr>,
          \<lparr>giver = ''bob'', giftRecipient = ''carol''\<rparr>,
          \<lparr>giver = ''carol'', giftRecipient = ''alice''\<rparr>]"
    by code_simp
  have s1: "sort_random demo_env 1 (map username demo_participants)
              = rotate1 (map username demo_participants)"
    by (simp add: demo_env_def)
  have g: "generateSecretSantaAssignments demo_env demo_participants
       = Inr [\<lparr>giver = ''alice'', giftRecipient = ''bob''\<rparr>,
              \<lparr>giver = ''bob'', giftRecipient = ''carol''\<rparr>,
              \<lparr>giver = ''carol'', giftRecipient = ''alice''\<rparr>]"
    using generateSecretSantaAssignments_derangement[OF h1 h2 h3, THEN conjunct2,
            THEN conjunct1, THEN spec, of 1, THEN mp, THEN mp, OF _ first]
    unfolding s1 drawn by simp
  note ex = conjunct1[OF generateSecretSantaAssignments_derangement[OF h1 h2 h3], rule_format, OF g]
  have first99: "(\<forall>k<99. \<exists>i<length demo_participants. map username demo_participants ! i
                   = sort_random (demo_env_late 99) k (map username demo_participants) ! i)
       \<and> (\<forall>i<length demo_participants. map username demo_participants ! i
                   \<noteq> sort_random (demo_env_late 99) 99 (map username demo_participants) ! i)"
    using moved h1 by (auto simp: demo_env_late_def intro!: exI[of _ 0])
  have s99: "sort_random (demo_env_late 99) 99 (map username demo_participants)
              = rotate1 (map username demo_participants)"
    by (simp add: demo_env_late_def)
  have g99: "generateSecretSantaAssignments (demo_env_late 99) demo_participants
       = Inr [\<lparr>giver = ''alice'', giftRecipient = ''bob''\<rparr>,
              \<lparr>giver = ''bob'', giftRecipient = ''carol''\<rparr>,
              \<lparr>giver = ''carol'', giftRecipient = ''alice''\<rparr>]"
    using generateSecretSantaAssignments_derangement[OF h1 h2 h3l, THEN conjunct2,
            THEN conjunct1, THEN spec, of 99 99, THEN mp, THEN mp, OF _ first99]
    unfolding s99 drawn by simp
  have fp100: "\<forall>k<100. \<exists>i<length demo_participants.
             map username demo_participants ! i
               = sort_random (demo_env_late 100) k (map username demo_participants) ! i"
    using h1 by (auto simp: demo_env_late_def intro!: exI[of _ 0])
  note thrown100 = generateSecretSantaAssignments_derangement[OF h1 h2 h3l, THEN conjunct2,
                  THEN conjunct2, THEN conjunct1, THEN mp, OF fp100]
  have s100: "sort_random (demo_env_late 100) 100 (map username demo_participants)
       = [''bob'', ''carol'', ''alice'']"
    unfolding names by (simp add: demo_env_late_def)
  have fp: "\<forall>k<100. \<exists>i<length demo_participants.
             map username demo_participants ! i
               = sort_random demo_env_identity k (map username demo_participants) ! i"
    using h1 by (auto simp: demo_env_identity_def intro!: exI[of _ 0])
  note thrown = generateSecretSantaAssignments_derangement[OF h1 h2 h3', THEN conjunct2,
                  THEN conjunct2, THEN conjunct1, THEN mp, OF fp]
  have same: "\<forall>k<100. sort_random (demo_env\<lparr>uuidv4 := ''r2''\<rparr>) k (map username demo_participants)
                 = sort_random demo_env k (map username demo_participants)"
    by simp
  note indep = generateSecretSantaAssignments_derangement[OF h1 h2 h3, THEN conjunct2,
                  THEN conjunct2, THEN conjunct2, THEN spec, THEN mp, OF same]
  from h1 h2 g ex g99 thrown100 s100 thrown indep show ?thesis by (intro conjI)
qed

section \<open>The room invariant\<close>

lemma rooms_saveData: "rooms (fst (saveData e st)) = rooms st"
  by (simp add: saveData_def Let_def)

lemma rooms_isRateLimited: "rooms (snd (isRateLimited e st)) = rooms st"
  by (simp add: isRateLimited_def Let_def)

lemma state_ok_cong: "rooms st' = rooms st \<Longrightarrow> state_ok st' = state_ok st"
  by (simp add: state_ok_def)

lemma set_update_subset: "set (AList.update k v al) \<subseteq> insert (k, v) (set al)"
  by (induction al) auto

lemma state_ok_update:
  "state_ok st \<Longrightarrow> room_ok r \<Longrightarrow> rooms st' = AList.update k r (rooms st) \<Longrightarrow> state_ok st'"
  using set_update_subset[of k r "rooms st"] by (auto simp: state_ok_def)

lemma state_ok_lookup: "state_ok st \<Longrightarrow> map_of (rooms st) k = Some r \<Longrightarrow> room_ok r"
  by (force simp: state_ok_def dest: map_of_SomeD)

lemma usernames_update_first:
  "(\<And>p. username (f p) = username p) \<Longrightarrow> map username (update_first P f ps) = map username ps"
  by (induction ps) auto

lemma find_username_None: "find (\<lambda>p. username p = u) ps = None \<Longrightarrow> u \<notin> set (map username ps)"
  by (auto simp: find_None_iff)

lemma update_first_all:
  "list_all Q ps \<Longrightarrow> (\<And>p. p \<in> set ps \<Longrightarrow> Q p \<Longrightarrow> Q (f p)) \<Longrightarrow> list_all Q (update_first P f ps)"
  by (induction ps) auto

lemma store_assignment_covers:
  "distinct (map username ps) \<Longrightarrow>
   (\<forall>p\<in>set ps. username p \<in> S \<longrightarrow> encryptedAssignment p \<noteq> None) \<Longrightarrow>
   (\<forall>p\<in>set (store_assignment ea ps). username p \<in> insert (fst ea) S \<longrightarrow> encryptedAssignment p \<noteq> None)"
  unfolding store_assignment_def
proof (induction ps)
  case Nil
  then show ?case by simp
next
  case (Cons x xs)
  show ?case
  proof (cases "username x = fst ea")
    case True
    have "username p \<noteq> fst ea" if "p \<in> set xs" for p
      using that True Cons.prems(1) by (metis distinct.simps(2) image_eqI list.simps(9) set_map)
    with True Cons.prems show ?thesis by auto
  next
    case False
    with Cons.prems Cons.IH show ?thesis by auto
  qed
qed

lemma usernames_store_assignment: "map username (store_assignment ea ps) = map username ps"
  by (simp add: store_assignment_def usernames_update_first)

lemma usernames_fold_store: "map username (fold store_assignment eas ps) = map username ps"
  by (induction eas arbitrary: ps) (simp_all add: usernames_store_assignment)

lemma fold_store_covers:
  "distinct (map username ps) \<Longrightarrow>
   (\<forall>p\<in>set ps. username p \<in> S \<longrightarrow> encryptedAssignment p \<noteq> None) \<Longrightarrow>
   (\<forall>p\<in>set (fold store_assignment eas ps). username p \<in> S \<union> fst ` set eas \<longrightarrow> encryptedAssignment p \<noteq> None)"
proof (induction eas arbitrary: ps S)
  case Nil
  then show ?case by simp
next
  case (Cons ea eas)
  have d: "distinct (map username (store_assignment ea ps))"
    using Cons.prems(1) by (simp add: usernames_store_assignment)
  from Cons.IH[OF d store_assignment_covers[OF Cons.prems(1) Cons.prems(2)]]
  show ?case by simp
qed

lemma encrypt_assignments_givers:
  "encrypt_assignments e ps as = Inr eas \<Longrightarrow> map fst eas = map giver as"
  by (induction as arbitrary: eas) (auto split: option.splits sum.splits)

lemma generate_givers:
  "generateSecretSantaAssignments e ps = Inr as \<Longrightarrow> map giver as = map username ps"
proof -
  assume "generateSecretSantaAssignments e ps = Inr as"
  then obtain j where "for_loop (map username ps) (sort_random e j (map username ps)) 0 [] = Some as"
    unfolding generateSecretSantaAssignments_def by (blast dest: while_loop_Inr)
  from for_loop_Some[OF this]
  have "as = map (\<lambda>i. \<lparr>giver = map username ps ! i,
                       giftRecipient = sort_random e j (map username ps) ! i\<rparr>) [0..<length (map username ps)]"
    by simp
  then have "map giver as = map (\<lambda>i. map username ps ! i) [0..<length (map username ps)]"
    by (simp add: comp_def)
  then show ?thesis by (simp only: map_nth)
qed

lemma start_commit_all_assigned:
  assumes d: "distinct (map username ps)"
    and g: "generateSecretSantaAssignments e ps = Inr as"
    and en: "encrypt_assignments e ps as = Inr eas"
  shows "list_all (\<lambda>p. encryptedAssignment p \<noteq> None) (fold store_assignment eas ps)"
proof -
  have "map fst eas = map username ps"
    using encrypt_assignments_givers[OF en] generate_givers[OF g] by simp
  then have cover: "fst ` set eas = set (map username ps)"
    by (metis set_map)
  have "\<forall>p\<in>set (fold store_assignment eas ps).
          username p \<in> {} \<union> fst ` set eas \<longrightarrow> encryptedAssignment p \<noteq> None"
    by (rule fold_store_covers[OF d]) simp
  moreover have "\<forall>p\<in>set (fold store_assignment eas ps). username p \<in> fst ` set eas"
  proof
    fix p assume "p \<in> set (fold store_assignment eas ps)"
    then have "username p \<in> set (map username (fold store_assignment eas ps))" by simp
    then show "username p \<in> fst ` set eas"
      unfolding cover usernames_fold_store .
  qed
  ultimately show ?thesis by (simp add: list_all_iff)
qed

lemma state_ok_saveData: "state_ok (fst (saveData e st)) = state_ok st"
  by (rule state_ok_cong) (rule rooms_saveData)

lemma isRateLimited_rooms: "isRateLimited e st0 = (b, st) \<Longrightarrow> rooms st = rooms st0"
  using rooms_isRateLimited[of e st0] by simp

lemma state_ok_set_room:
  "state_ok st \<Longrightarrow> room_ok r \<Longrightarrow> state_ok (st\<lparr>rooms := AList.update k r (rooms st)\<rparr>)"
  by (rule state_ok_update[where st = st and r = r and k = k]) simp_all

lemma state_ok_post_rooms: "state_ok st0 \<Longrightarrow> state_ok (fst (post_rooms e nm hu hp st0))"
proof -
  assume ok: "state_ok st0"
  obtain b st where rl: "isRateLimited e st0 = (b, st)" by (cases "isRateLimited e st0")
  from isRateLimited_rooms[OF rl] ok have ok': "state_ok st" by (simp add: state_ok_def)
  have new: "room_ok \<lparr>room_id = a, room_name = b', hostUsername = c, hostLoginHash = d,
                      participants = [], status = Open, createdAt = f\<rparr>" for a b' c d f
    by (simp add: room_ok_def room_invariant_def)
  show ?thesis
    using rl ok'
    by (simp add: post_rooms_def Let_def state_ok_saveData state_ok_set_room new
             split: sum.splits bool.splits)
qed

lemma fst_post_init_register: "fst (post_init_register e rid u p st) = st"
  by (simp add: post_init_register_def Let_def split: option.splits sum.splits)

lemma fst_post_host_auth: "fst (post_host_auth e rid u p st) = st"
  by (simp add: post_host_auth_def Let_def split: option.splits)

lemma fst_post_login: "fst (post_login e rid u p st) = st"
  by (simp add: post_login_def Let_def split: option.splits)

lemma fst_post_remove_participant:
  "fst (post_remove_participant e rid hu hp u st) = st"
  by (simp add: post_remove_participant_def Let_def split: option.splits)

lemma room_ok_append:
  assumes "room_ok r" and "status r \<noteq> Started" and "find (\<lambda>p. username p = u) (participants r) = None"
  shows "room_ok (r\<lparr>participants := participants r @
            [\<lparr>username = u, passwordHash = h, publicKey = k, keySalt = s, encryptedAssignment = None\<rparr>]\<rparr>)"
proof -
  from assms(2) have "status r = Open" by (cases "status r") simp_all
  with assms(1) find_username_None[OF assms(3)] show ?thesis
    by (auto simp: room_ok_def room_invariant_def)
qed

lemma room_ok_reregister:
  assumes "room_ok r" and "find (\<lambda>p. username p = u) (participants r) = Some x"
  shows "room_ok (r\<lparr>participants := update_first (\<lambda>p. username p = u)
                        (\<lambda>p. x\<lparr>publicKey := k, keySalt := s\<rparr>) (participants r)\<rparr>)"
proof -
  let ?f = "\<lambda>p. if username p = u then p\<lparr>publicKey := k, keySalt := s\<rparr> else p"
  have fnd: "find P ps = Some x \<Longrightarrow> update_first P (\<lambda>p. g x) ps = update_first P g ps" for P g and ps :: "participant list"
    by (induction ps) (auto split: if_splits)
  have eq: "update_first (\<lambda>p. username p = u) (\<lambda>p. x\<lparr>publicKey := k, keySalt := s\<rparr>) (participants r)
        = update_first (\<lambda>p. username p = u) (\<lambda>p. p\<lparr>publicKey := k, keySalt := s\<rparr>) (participants r)"
    using fnd[OF assms(2), of "\<lambda>p. p\<lparr>publicKey := k, keySalt := s\<rparr>"] .
  have names: "map username (update_first (\<lambda>p. username p = u)
                  (\<lambda>p. p\<lparr>publicKey := k, keySalt := s\<rparr>) (participants r)) = map username (participants r)"
    by (rule usernames_update_first) simp
  have allq: "list_all Q (participants r) \<Longrightarrow> (\<And>p. Q p \<Longrightarrow> Q (p\<lparr>publicKey := k, keySalt := s\<rparr>)) \<Longrightarrow>
     list_all Q (update_first (\<lambda>p. username p = u)
                  (\<lambda>p. p\<lparr>publicKey := k, keySalt := s\<rparr>) (participants r))" for Q
    by (rule update_first_all) simp_all
  from assms(1) show ?thesis
    unfolding eq room_ok_def room_invariant_def
    by (auto simp: names intro!: allq)
qed

lemma state_ok_post_register:
  assumes ok: "state_ok st0"
  shows "state_ok (fst (post_register e rid u p k s st0))"
proof -
  obtain b st where rl: "isRateLimited e st0 = (b, st)" by (cases "isRateLimited e st0")
  from isRateLimited_rooms[OF rl] ok have ok': "state_ok st" by (simp add: state_ok_def)
  show ?thesis
  proof (cases "map_of (rooms st) rid")
    case None
    with rl ok' show ?thesis
      by (simp add: post_register_def split: bool.splits)
  next
    case (Some r)
    from state_ok_lookup[OF ok' Some] have r: "room_ok r" .
    show ?thesis
      using rl ok' Some r
      by (simp add: post_register_def Let_def state_ok_saveData state_ok_set_room
                    room_ok_append room_ok_reregister
               split: bool.splits sum.splits option.splits)
  qed
qed

lemma state_ok_post_start:
  assumes ok: "state_ok st"
  shows "state_ok (fst (post_start e rid hu hp st))"
proof (cases "map_of (rooms st) rid")
  case None
  with ok show ?thesis by (simp add: post_start_def)
next
  case (Some r)
  from state_ok_lookup[OF ok Some] have r: "room_ok r" .
  have commit: "room_ok (r\<lparr>participants := fold store_assignment eas (participants r), status := Started\<rparr>)"
    if "generateSecretSantaAssignments e (participants r) = Inr as"
      and "encrypt_assignments e (participants r) as = Inr eas" for as eas
    using r start_commit_all_assigned[OF _ that]
    by (simp add: room_ok_def room_invariant_def usernames_fold_store)
  show ?thesis
    using ok Some r
    by (simp add: post_start_def Let_def state_ok_saveData state_ok_set_room commit
             split: sum.splits)
qed

lemma state_ok_handle: "state_ok st \<Longrightarrow> state_ok (fst (handle e req st))"
  by (cases req)
     (simp_all add: state_ok_post_rooms fst_post_init_register state_ok_post_register
        fst_post_host_auth fst_post_remove_participant state_ok_post_start fst_post_login)

lemma state_ok_rooms_invariant: "state_ok st \<Longrightarrow> rooms_invariant st"
  by (simp add: state_ok_def rooms_invariant_def room_ok_def list_all_iff)

text \<open>So a handler that runs from its first line to its reply with no other request in
  between keeps the invariant (\<open>state_ok_handle\<close>, \<open>state_ok_rooms_invariant\<close>). The
  segments of \<^verbatim>\<open>register\<close> and \<^verbatim>\<open>start\<close>, run one after the other, are these
  handlers.\<close>

lemma post_register_segments:
  "register_uninterrupted e roomId uname password pubKey bodySalt st0
     = Some (post_register e roomId uname password pubKey bodySalt st0)"
  by (auto simp: register_uninterrupted_def register_begin_def register_resume_def
        post_register_def Let_def
      split: prod.splits bool.splits option.splits sum.splits if_splits)

lemma post_start_segments:
  "start_uninterrupted e roomId hostUser hostPassword st
     = Some (post_start e roomId hostUser hostPassword st)"
  by (auto simp: start_uninterrupted_def start_begin_def start_resume_def post_start_def
        verifyPassword_def await_def Let_def
      split: option.splits sum.splits)

text \<open>The last segment of \<^verbatim>\<open>register\<close> appends a participant without a ciphertext
  to the room as it finds it, whatever the room's status has become since the first
  segment read it.\<close>

lemma register_resume_pushes_unchecked:
  assumes "map_of (rooms st) roomId = Some r"
  shows "\<exists>st' reply r'.
           register_resume e (AwaitHashPassword roomId s pubKey salt isHost hashed) st = Some (st', Inl reply)
           \<and> map_of (rooms st') roomId = Some r' \<and> status r' = status r
           \<and> map encryptedAssignment (participants r') = map encryptedAssignment (participants r) @ [None]"
  using assms
  by (simp add: register_resume_def Let_def saveData_def update_conv')

text \<open>
  Claim C3. The invariant of the room data model (a started room has a ciphertext for every
  participant, an open room has none) does not hold in every state the server reaches.
  \<^verbatim>\<open>register\<close> reads \<^verbatim>\<open>room.status\<close> once, before its awaits of bcrypt, and pushes
  the new participant with \<^verbatim>\<open>encryptedAssignment: null\<close> after them; \<^verbatim>\<open>start\<close> can
  run in between. In the run \<open>race_run\<close>, from a state that satisfies the invariant (an
  open room with alice and bob), carol's registration finds the room open and awaits, the
  host's start draws and stores the ciphertexts of alice and bob and sets the room to
  started, and the registration then adds carol: both requests are answered 200, the
  registration with \<^verbatim>\<open>Registered successfully\<close>, and the room is started with no
  ciphertext for carol.
\<close>

theorem register_racing_start_breaks_room_invariant:
  "rooms_invariant race_before
   \<and> stored_assignments race_before ''r1'' = Some (Open, [(''alice'', None), (''bob'', None)])
   \<and> map_option (\<lambda>(st, startReply, registerReply). (status_code startReply, status_code registerReply))
        race_run = Some (200, 200)
   \<and> map_option (\<lambda>(st, startReply, registerReply). json_field ''message'' (reply_body registerReply))
        race_run = Some (Some (JStr ''Registered successfully''))
   \<and> map_option (\<lambda>(st, startReply, registerReply). stored_assignments st ''r1'') race_run
       = Some (Some (Started, [(''alice'', Some ''pemA:bob''), (''bob'', Some ''pemB:alice''),
                               (''carol'', None)]))
   \<and> map_option (\<lambda>(st, startReply, registerReply). rooms_invariant st) race_run = Some False"
  by code_simp

section \<open>Starting a room\<close>

lemma encrypt_assignments_fails:
  "a \<in> set as \<Longrightarrow> find (\<lambda>q. username q = giver a) ps = Some p \<Longrightarrow>
   rsa_oaep_encrypt e (publicKey p) (giftRecipient a) = None \<Longrightarrow>
   \<exists>a'\<in>set as. encrypt_assignments e ps as = Inl (''Failed to encrypt assignment for '' @ giver a')"
proof (induction as)
  case Nil
  then show ?case by simp
next
  case (Cons x xs)
  show ?case
  proof (cases "encrypt_assignments e ps (x # xs)")
    case (Inl msg)
    then show ?thesis
      using Cons by (auto split: option.splits sum.splits)
  next
    case (Inr eas)
    then show ?thesis
      using Cons by (auto split: option.splits sum.splits)
  qed
qed

lemma post_start_rejected_unchanged:
  "snd (post_start e roomId hostUser hostPassword st) = Response code body \<Longrightarrow> code \<noteq> 200 \<Longrightarrow>
   fst (post_start e roomId hostUser hostPassword st) = st"
  by (auto simp: post_start_def Let_def split: option.splits sum.splits if_splits)

lemma post_start_reaches_generation:
  assumes "hostUser \<noteq> []" "hostPassword \<noteq> []" "map_of (rooms st) roomId = Some r"
    and "bcrypt_compare e (hostUser @ hostPassword) (hostLoginHash r)"
    and "status r = Open" "2 \<le> length (participants r)"
    and "\<forall>p\<in>set (participants r). publicKey p \<noteq> []"
  shows "post_start e roomId hostUser hostPassword st =
    (case generateSecretSantaAssignments e (participants r) of
       Inl msg \<Rightarrow> (st, Response 500 (error_json msg))
     | Inr assignments \<Rightarrow>
         (case encrypt_assignments e (participants r) assignments of
            Inl msg \<Rightarrow> (st, Response 500 (error_json msg))
          | Inr encryptedAssignments \<Rightarrow>
              (fst (saveData e (st\<lparr>rooms := AList.update roomId
                       (r\<lparr>participants := fold store_assignment encryptedAssignments (participants r),
                          status := Started\<rparr>) (rooms st)\<rparr>)),
               Response 200
                 (JObj [(''success'', JBool True),
                        (''message'', JStr ''Room started and assignments generated''),
                        (''status'', JStr ''started''),
                        (''participantCount'',
                           JNum (length (fold store_assignment encryptedAssignments (participants r))))]))))"
proof -
  have "filter (\<lambda>p. publicKey p = []) (participants r) = []"
    using assms(7) by (simp add: filter_empty_conv)
  with assms(1-6) show ?thesis
    by (simp add: post_start_def Let_def verifyPassword_def await_def status_json_def
             split: sum.splits)
qed

text \<open>
  Claim C4. A start request that is answered with anything but 200 leaves the state as it
  was. In particular, for a request that passes the checks (host verified, room open, at
  least two participants, every public key present): when the generation of the
  assignments throws, the reply is 500 with its message and the state is unchanged; and when
  the encryption for some participant fails, the reply is 500 naming one participant whose
  encryption failed and the state is unchanged, so no ciphertext is stored and the room
  stays open.
\<close>

theorem post_start_all_or_nothing:
  "(\<forall>code body. snd (post_start e roomId hostUser hostPassword st) = Response code body \<and> code \<noteq> 200
       \<longrightarrow> fst (post_start e roomId hostUser hostPassword st) = st)
   \<and> (hostUser \<noteq> [] \<and> hostPassword \<noteq> [] \<and> map_of (rooms st) roomId = Some r
        \<and> bcrypt_compare e (hostUser @ hostPassword) (hostLoginHash r)
        \<and> status r = Open \<and> 2 \<le> length (participants r)
        \<and> (\<forall>p\<in>set (participants r). publicKey p \<noteq> [])
       \<longrightarrow>
         (\<forall>msg. generateSecretSantaAssignments e (participants r) = Inl msg
            \<longrightarrow> post_start e roomId hostUser hostPassword st = (st, Response 500 (error_json msg)))
       \<and> (\<forall>as a p. generateSecretSantaAssignments e (participants r) = Inr as
              \<and> a \<in> set as
              \<and> find (\<lambda>q. username q = giver a) (participants r) = Some p
              \<and> rsa_oaep_encrypt e (publicKey p) (giftRecipient a) = None
            \<longrightarrow> (\<exists>a'\<in>set as. post_start e roomId hostUser hostPassword st
                     = (st, Response 500 (error_json (''Failed to encrypt assignment for '' @ giver a'))))))"
proof (intro conjI allI impI; (elim conjE)?)
  fix code body
  assume "snd (post_start e roomId hostUser hostPassword st) = Response code body" "code \<noteq> 200"
  then show "fst (post_start e roomId hostUser hostPassword st) = st"
    by (rule post_start_rejected_unchanged)
next
  fix msg
  assume pre: "hostUser \<noteq> []" "hostPassword \<noteq> []" "map_of (rooms st) roomId = Some r"
    "bcrypt_compare e (hostUser @ hostPassword) (hostLoginHash r)"
    "status r = Open" "2 \<le> length (participants r)"
    "\<forall>p\<in>set (participants r). publicKey p \<noteq> []"
    and g: "generateSecretSantaAssignments e (participants r) = Inl msg"
  show "post_start e roomId hostUser hostPassword st = (st, Response 500 (error_json msg))"
    by (simp add: post_start_reaches_generation[OF pre] g)
next
  fix as a p
  assume pre: "hostUser \<noteq> []" "hostPassword \<noteq> []" "map_of (rooms st) roomId = Some r"
    "bcrypt_compare e (hostUser @ hostPassword) (hostLoginHash r)"
    "status r = Open" "2 \<le> length (participants r)"
    "\<forall>p\<in>set (participants r). publicKey p \<noteq> []"
    and g: "generateSecretSantaAssignments e (participants r) = Inr as"
    and f: "a \<in> set as" "find (\<lambda>q. username q = giver a) (participants r) = Some p"
      "rsa_oaep_encrypt e (publicKey p) (giftRecipient a) = None"
  from encrypt_assignments_fails[OF f] obtain a' where a': "a' \<in> set as"
    and en: "encrypt_assignments e (participants r) as = Inl (''Failed to encrypt assignment for '' @ giver a')"
    by blast
  have "post_start e roomId hostUser hostPassword st
          = (st, Response 500 (error_json (''Failed to encrypt assignment for '' @ giver a')))"
    by (simp add: post_start_reaches_generation[OF pre] g en)
  with a' show "\<exists>a'\<in>set as. post_start e roomId hostUser hostPassword st
                     = (st, Response 500 (error_json (''Failed to encrypt assignment for '' @ giver a')))"
    by blast
qed


text \<open>Both failures at concrete inputs: shuffles that never move a name exhaust the hundred
  attempts, and bob's unusable key fails the encryption after alice's succeeded. A start
  with a wrong password is answered 401 and changes nothing.\<close>

theorem post_start_all_or_nothing_witness:
  "generateSecretSantaAssignments demo_env_identity demo_participants
     = Inl ''Failed to generate valid Secret Santa assignments''
   \<and> post_start demo_env_identity ''r1'' ''santa'' ''claus1'' (demo_state demo_participants)
       = (demo_state demo_participants,
          Response 500 (error_json ''Failed to generate valid Secret Santa assignments''))
   \<and> generateSecretSantaAssignments demo_env demo_bad_key
       = Inr [\<lparr>giver = ''alice'', giftRecipient = ''bob''\<rparr>, \<lparr>giver = ''bob'', giftRecipient = ''alice''\<rparr>]
   \<and> rsa_oaep_encrypt demo_env ''bad'' ''alice'' = None
   \<and> (\<exists>a'\<in>set [\<lparr>giver = ''alice'', giftRecipient = ''bob''\<rparr>, \<lparr>giver = ''bob'', giftRecipient = ''alice''\<rparr>].
         post_start demo_env ''r1'' ''santa'' ''claus1'' (demo_state demo_bad_key)
           = (demo_state demo_bad_key,
              Response 500 (error_json (''Failed to encrypt assignment for '' @ giver a'))))
   \<and> post_start demo_env ''r1'' ''santa'' ''claus1'' (demo_state demo_bad_key)
       = (demo_state demo_bad_key, Response 500 (error_json ''Failed to encrypt assignment for bob''))
   \<and> snd (post_start demo_env ''r1'' ''santa'' ''wrong'' (demo_state demo_participants))
       = Response 401 (error_json ''Invalid host credentials'')
   \<and> fst (post_start demo_env ''r1'' ''santa'' ''wrong'' (demo_state demo_participants))
       = demo_state demo_participants"
proof -
  let ?r1 = "demo_room demo_participants" and ?r2 = "demo_room demo_bad_key"
  have pre1: "''santa'' \<noteq> [] \<and> ''claus1'' \<noteq> []
      \<and> map_of (rooms (demo_state demo_participants)) ''r1'' = Some ?r1
      \<and> bcrypt_compare demo_env_identity (''santa'' @ ''claus1'') (hostLoginHash ?r1)
      \<and> status ?r1 = Open \<and> 2 \<le> length (participants ?r1)
      \<and> (\<forall>p\<in>set (participants ?r1). publicKey p \<noteq> [])"
    by (simp add: demo_state_def demo_room_def demo_participants_def demo_participant_def
          demo_env_identity_def demo_env_def)
  have pre2: "''santa'' \<noteq> [] \<and> ''claus1'' \<noteq> []
      \<and> map_of (rooms (demo_state demo_bad_key)) ''r1'' = Some ?r2
      \<and> bcrypt_compare demo_env (''santa'' @ ''claus1'') (hostLoginHash ?r2)
      \<and> status ?r2 = Open \<and> 2 \<le> length (participants ?r2)
      \<and> (\<forall>p\<in>set (participants ?r2). publicKey p \<noteq> [])"
    by (simp add: demo_state_def demo_room_def demo_bad_key_def demo_participant_def demo_env_def)
  have g1: "generateSecretSantaAssignments demo_env_identity (participants ?r1)
     = Inl ''Failed to generate valid Secret Santa assignments''"
    by code_simp
  have g2: "generateSecretSantaAssignments demo_env (participants ?r2)
       = Inr [\<lparr>giver = ''alice'', giftRecipient = ''bob''\<rparr>, \<lparr>giver = ''bob'', giftRecipient = ''alice''\<rparr>]"
    by code_simp
  have f2: "\<lparr>giver = ''bob'', giftRecipient = ''alice''\<rparr>
              \<in> set [\<lparr>giver = ''alice'', giftRecipient = ''bob''\<rparr>, \<lparr>giver = ''bob'', giftRecipient = ''alice''\<rparr>]
     \<and> find (\<lambda>q. username q = giver \<lparr>giver = ''bob'', giftRecipient = ''alice''\<rparr>) (participants ?r2)
         = Some (demo_participant ''bob'' ''bobpw'' ''bad'' ''s2'')
     \<and> rsa_oaep_encrypt demo_env (publicKey (demo_participant ''bob'' ''bobpw'' ''bad'' ''s2''))
          (giftRecipient \<lparr>giver = ''bob'', giftRecipient = ''alice''\<rparr>) = None"
    by (simp add: demo_room_def demo_bad_key_def demo_participant_def demo_env_def)
  have ps: "participants ?r1 = demo_participants" "participants ?r2 = demo_bad_key"
    by (simp_all add: demo_room_def)
  note a = post_start_all_or_nothing[of demo_env_identity "''r1''" "''santa''" "''claus1''"
              "demo_state demo_participants" ?r1, THEN conjunct2, rule_format, OF pre1,
              THEN conjunct1, rule_format, OF g1]
  note b = post_start_all_or_nothing[of demo_env "''r1''" "''santa''" "''claus1''"
              "demo_state demo_bad_key" ?r2, THEN conjunct2, rule_format, OF pre2,
              THEN conjunct2, rule_format, OF conjI[OF g2 f2]]
  have c: "post_start demo_env ''r1'' ''santa'' ''claus1'' (demo_state demo_bad_key)
       = (demo_state demo_bad_key, Response 500 (error_json ''Failed to encrypt assignment for bob''))"
    by code_simp
  have d: "rsa_oaep_encrypt demo_env ''bad'' ''alice'' = None"
    by (simp add: demo_env_def)
  have rej: "snd (post_start demo_env ''r1'' ''santa'' ''wrong'' (demo_state demo_participants))
       = Response 401 (error_json ''Invalid host credentials'')"
    by code_simp
  have "(401::nat) \<noteq> 200" by simp
  note e = post_start_all_or_nothing[of demo_env "''r1''" "''santa''" "''wrong''"
              "demo_state demo_participants" ?r1, THEN conjunct1, rule_format, OF conjI[OF rej this]]
  from g1 a g2 d b c rej e show ?thesis unfolding ps by (intro conjI)
qed

section \<open>Removing a participant\<close>

text \<open>
  Claim C5 (what the code does). The handler compares the promise that \<^verbatim>\<open>hashPassword\<close>
  returns with the stored hash, and a promise is never \<^verbatim>\<open>===\<close> a string: every
  remove-participant request with its three fields, on a room that exists, is answered 401
  \<^verbatim>\<open>Invalid host credentials\<close> and changes nothing, whatever the credentials and
  whoever the target.
\<close>

theorem post_remove_participant_always_401:
  "hostUser \<noteq> [] \<Longrightarrow> hostPassword \<noteq> [] \<Longrightarrow> uname \<noteq> [] \<Longrightarrow>
   map_of (rooms st) roomId = Some r \<Longrightarrow>
   post_remove_participant e roomId hostUser hostPassword uname st
     = (st, Response 401 (error_json ''Invalid host credentials''))"
  by (simp add: post_remove_participant_def Let_def)

text \<open>The host's own credentials, an open room and an existing participant: rejected.\<close>

theorem post_remove_participant_always_401_witness:
  "map_of (rooms (demo_state demo_participants)) ''r1'' = Some (demo_room demo_participants)
   \<and> status (demo_room demo_participants) = Open
   \<and> bcrypt_compare demo_env (''santa'' @ ''claus1'') (hostLoginHash (demo_room demo_participants))
   \<and> ''bob'' \<in> set (map username (participants (demo_room demo_participants)))
   \<and> post_remove_participant demo_env ''r1'' ''santa'' ''claus1'' ''bob'' (demo_state demo_participants)
       = (demo_state demo_participants, Response 401 (error_json ''Invalid host credentials''))"
proof -
  have r: "map_of (rooms (demo_state demo_participants)) ''r1'' = Some (demo_room demo_participants)"
    by (simp add: demo_state_def)
  have "''santa'' \<noteq> []" "''claus1'' \<noteq> []" "''bob'' \<noteq> []" by simp_all
  note a = post_remove_participant_always_401[OF this r, of demo_env]
  have b: "status (demo_room demo_participants) = Open
   \<and> bcrypt_compare demo_env (''santa'' @ ''claus1'') (hostLoginHash (demo_room demo_participants))
   \<and> ''bob'' \<in> set (map username (participants (demo_room demo_participants)))"
    by (simp add: demo_room_def demo_env_def demo_participants_def demo_participant_def)
  from r b a show ?thesis by (intro conjI) (elim conjE, assumption)+
qed

section \<open>Flushing the registry\<close>

text \<open>
  Claim C7 (what the code does). A flush that runs (no flush in progress, the backup
  directory can be made) issues these file-system calls, in this order: make the backup
  directory, read the live file, write what was read to a backup file named by the time
  (when the read succeeded), and write the new snapshot straight to the live file
  \<open>ROOMS_FILE\<close>. No temporary file is written and nothing is renamed.
\<close>

theorem saveData_overwrites_live_file:
  "\<not> saveInProgress st \<Longrightarrow> \<not> mkdir_fails e \<Longrightarrow>
   snd (saveData e st) =
     [Mkdir (DATA_DIR @ ''/backups''), ReadFile ROOMS_FILE]
     @ (case readFile e ROOMS_FILE of
          None \<Rightarrow> []
        | Some data \<Rightarrow>
            [WriteFile (DATA_DIR @ ''/backups/rooms.json.''
                          @ map (\<lambda>c. if c = CHR '':'' \<or> c = CHR ''.'' then CHR ''-'' else c) (save_iso e)
                          @ ''.backup'') data])
     @ [WriteFile ROOMS_FILE (json_stringify e (rooms st))]"
  by (simp add: saveData_def Let_def split: option.splits)

text \<open>A flush over an existing live file.\<close>

theorem saveData_overwrites_live_file_witness:
  "\<not> saveInProgress (demo_state demo_participants) \<and> \<not> mkdir_fails (demo_env\<lparr>readFile := (\<lambda>path. Some ''{}'')\<rparr>)
   \<and> snd (saveData (demo_env\<lparr>readFile := (\<lambda>path. Some ''{}'')\<rparr>) (demo_state demo_participants)) =
     [Mkdir ''data/backups'', ReadFile ''data/rooms.json'',
      WriteFile ''data/backups/rooms.json.2025-12-07T12-00-01-000Z.backup'' ''{}'',
      WriteFile ''data/rooms.json'' ''r1'']"
proof -
  have a: "\<not> saveInProgress (demo_state demo_participants)"
    by (simp add: demo_state_def)
  have b: "\<not> mkdir_fails (demo_env\<lparr>readFile := (\<lambda>path. Some ''{}'')\<rparr>)"
    by (simp add: demo_env_def)
  from saveData_overwrites_live_file[OF a b]
  have "snd (saveData (demo_env\<lparr>readFile := (\<lambda>path. Some ''{}'')\<rparr>) (demo_state demo_participants)) =
     [Mkdir ''data/backups'', ReadFile ''data/rooms.json'',
      WriteFile ''data/backups/rooms.json.2025-12-07T12-00-01-000Z.backup'' ''{}'',
      WriteFile ''data/rooms.json'' ''r1'']"
    by (simp add: demo_env_def demo_state_def DATA_DIR_def ROOMS_FILE_def)
  with a b show ?thesis by (intro conjI)
qed

section \<open>Rejected credentials\<close>

text \<open>
  Claim C6 as stated fails: in a room where bob is registered and mallory is not, login
  answers mallory with 404 \<^verbatim>\<open>User not found in this room\<close> and bob with a wrong
  password with 401 \<^verbatim>\<open>Invalid password\<close>; init-register answers mallory with 200 and
  a fresh salt and bob with a wrong password with 401.
\<close>

theorem login_tells_unknown_from_wrong_secret_counterexample:
  "''mallory'' \<notin> set (map username demo_participants)
   \<and> ''bob'' \<in> set (map username demo_participants)
   \<and> \<not> bcrypt_compare demo_env ''guess'' (passwordHash (demo_participant ''bob'' ''bobpw'' ''pemB'' ''s2''))
   \<and> snd (post_login demo_env ''r1'' ''mallory'' ''guess'' (demo_state demo_participants))
       = Response 404 (error_json ''User not found in this room'')
   \<and> snd (post_login demo_env ''r1'' ''bob'' ''guess'' (demo_state demo_participants))
       = Response 401 (error_json ''Invalid password'')
   \<and> snd (post_init_register demo_env ''r1'' ''mallory'' ''guess'' (demo_state demo_participants))
       = Response 200 (JObj [(''keySalt'', JStr ''a7f9''), (''alreadyExists'', JBool False)])
   \<and> snd (post_init_register demo_env ''r1'' ''bob'' ''guess'' (demo_state demo_participants))
       = Response 401 (error_json ''Invalid password for this username'')
   \<and> snd (post_login demo_env ''r1'' ''mallory'' ''guess'' (demo_state demo_participants))
       \<noteq> snd (post_login demo_env ''r1'' ''bob'' ''guess'' (demo_state demo_participants))
   \<and> snd (post_init_register demo_env ''r1'' ''mallory'' ''guess'' (demo_state demo_participants))
       \<noteq> snd (post_init_register demo_env ''r1'' ''bob'' ''guess'' (demo_state demo_participants))"
  by code_simp

lemma isRateLimited_cases:
  "isRateLimited e st = (True, st)
   \<or> isRateLimited e st = (False, st\<lparr>rateLimitMap := rateLimitMap (snd (isRateLimited e st))\<rparr>)"
  by (simp add: isRateLimited_def Let_def)

lemma post_register_wrong_password:
  assumes "uname \<noteq> []" "password \<noteq> []" "map_of (rooms st) roomId = Some r"
    and "status r = Open" "validateUsername uname = Inr s" "4 \<le> length password"
    and "\<not> bcrypt_compare e (s @ password) (hostLoginHash r)"
    and "find (\<lambda>p. username p = s) (participants r) = Some p"
    and "\<not> bcrypt_compare e password (passwordHash p)"
  shows "post_register e roomId uname password pubKey bodySalt st
          = (if fst (isRateLimited e st)
             then (st, Response 429 (error_json ''Too many requests. Please wait a minute.''))
             else (st\<lparr>rateLimitMap := rateLimitMap (snd (isRateLimited e st))\<rparr>,
                   Response 401 (error_json ''Invalid password for this username'')))"
proof -
  from isRateLimited_cases[of e st] show ?thesis
  proof
    assume "isRateLimited e st = (True, st)"
    then show ?thesis by (simp add: post_register_def)
  next
    assume adm: "isRateLimited e st
                   = (False, st\<lparr>rateLimitMap := rateLimitMap (snd (isRateLimited e st))\<rparr>)"
    then have nf: "\<not> fst (isRateLimited e st)" by (cases "isRateLimited e st") simp
    obtain m where m: "isRateLimited e st = (False, st\<lparr>rateLimitMap := m\<rparr>)"
      using adm by blast
    have "post_register e roomId uname password pubKey bodySalt st
            = (st\<lparr>rateLimitMap := m\<rparr>,
               Response 401 (error_json ''Invalid password for this username''))"
      using assms
      by (simp add: post_register_def m validatePassword_def verifyPassword_def await_def Let_def)
    with m show ?thesis by simp
  qed
qed

text \<open>
  Claim C6, amended. Take a request whose name and password are both non-empty, on a room
  that exists. Login: 404 \<^verbatim>\<open>User not found in this room\<close> for a name no participant
  has, 401 \<^verbatim>\<open>Invalid password\<close> for a participant whose hash the password does not
  verify against. Init-register, on an open room, with a name that validation accepts and a
  password of at least 4 characters: 200 with a fresh salt when no participant has the
  sanitized name, 401 \<^verbatim>\<open>Invalid password for this username\<close> for a participant whose
  hash the password does not verify against. Host-auth and start: 401
  \<^verbatim>\<open>Invalid host credentials\<close> whenever the concatenated credentials do not verify
  against the host's hash, whatever the name. These four leave the state as it was. Register,
  on an open room, with a name that validation accepts, a password of at least 4 characters,
  credentials that do not verify as the host's, a participant under the sanitized name and a
  password that does not verify against that participant's hash: when the rate limiter
  refuses the call, 429 \<^verbatim>\<open>Too many requests. Please wait a minute.\<close> and the state as
  it was; when it admits the call, 401 \<^verbatim>\<open>Invalid password for this username\<close>, and the
  state differs from the one before in the rate limiter's record only, as the limiter
  leaves it.
\<close>

theorem wrong_credential_replies:
  "uname \<noteq> [] \<and> password \<noteq> [] \<and> map_of (rooms st) roomId = Some r \<longrightarrow>
     (find (\<lambda>p. username p = uname) (participants r) = None \<longrightarrow>
        post_login e roomId uname password st
          = (st, Response 404 (error_json ''User not found in this room'')))
   \<and> (\<forall>p. find (\<lambda>p. username p = uname) (participants r) = Some p
            \<and> \<not> bcrypt_compare e password (passwordHash p) \<longrightarrow>
        post_login e roomId uname password st = (st, Response 401 (error_json ''Invalid password'')))
   \<and> (\<forall>s. status r = Open \<and> validateUsername uname = Inr s \<and> 4 \<le> length password
            \<and> find (\<lambda>p. username p = s) (participants r) = None \<longrightarrow>
        post_init_register e roomId uname password st
          = (st, Response 200 (JObj [(''keySalt'', JStr (randomBytes_hex e)),
                                     (''alreadyExists'', JBool False)])))
   \<and> (\<forall>s p. status r = Open \<and> validateUsername uname = Inr s \<and> 4 \<le> length password
            \<and> find (\<lambda>p. username p = s) (participants r) = Some p
            \<and> \<not> bcrypt_compare e password (passwordHash p) \<longrightarrow>
        post_init_register e roomId uname password st
          = (st, Response 401 (error_json ''Invalid password for this username'')))
   \<and> (\<not> bcrypt_compare e (uname @ password) (hostLoginHash r) \<longrightarrow>
        post_host_auth e roomId uname password st
          = (st, Response 401 (error_json ''Invalid host credentials''))
        \<and> post_start e roomId uname password st
          = (st, Response 401 (error_json ''Invalid host credentials'')))
   \<and> (\<forall>s p pubKey bodySalt. status r = Open
            \<and> validateUsername uname = Inr s \<and> 4 \<le> length password
            \<and> \<not> bcrypt_compare e (s @ password) (hostLoginHash r)
            \<and> find (\<lambda>p. username p = s) (participants r) = Some p
            \<and> \<not> bcrypt_compare e password (passwordHash p) \<longrightarrow>
        post_register e roomId uname password pubKey bodySalt st
          = (if fst (isRateLimited e st)
             then (st, Response 429 (error_json ''Too many requests. Please wait a minute.''))
             else (st\<lparr>rateLimitMap := rateLimitMap (snd (isRateLimited e st))\<rparr>,
                   Response 401 (error_json ''Invalid password for this username''))))"
  (is "?pre \<longrightarrow> ?A \<and> ?B \<and> ?C \<and> ?D \<and> ?E \<and> ?F")
proof (intro impI)
  assume pre: ?pre
  have ?A and ?B
    using pre by (auto simp: post_login_def verifyPassword_def await_def Let_def)
  moreover have ?C and ?D
    using pre
    by (auto simp: post_init_register_def validatePassword_def verifyPassword_def await_def
          generateKeySalt_def Let_def)
  moreover have ?E
    using pre by (auto simp: post_host_auth_def post_start_def verifyPassword_def await_def Let_def)
  moreover have ?F
    using pre by (intro allI impI, elim conjE) (rule post_register_wrong_password)
  ultimately show "?A \<and> ?B \<and> ?C \<and> ?D \<and> ?E \<and> ?F"
    by (intro conjI)
qed

text \<open>Bob with a wrong password at login, init-register, host-auth and start; at register,
  from a client the rate limiter admits and from one that has made ten calls in the last
  minute; and mallory, whom the room does not know, at login and init-register.\<close>

theorem wrong_credential_replies_witness:
  "''bob'' \<noteq> [] \<and> ''guess'' \<noteq> []
   \<and> map_of (rooms (demo_state demo_participants)) ''r1'' = Some (demo_room demo_participants)
   \<and> find (\<lambda>p. username p = ''bob'') (participants (demo_room demo_participants))
        = Some (demo_participant ''bob'' ''bobpw'' ''pemB'' ''s2'')
   \<and> \<not> bcrypt_compare demo_env ''guess'' (passwordHash (demo_participant ''bob'' ''bobpw'' ''pemB'' ''s2''))
   \<and> post_login demo_env ''r1'' ''bob'' ''guess'' (demo_state demo_participants)
       = (demo_state demo_participants, Response 401 (error_json ''Invalid password''))
   \<and> status (demo_room demo_participants) = Open \<and> validateUsername ''bob'' = Inr ''bob''
   \<and> 4 \<le> length ''guess''
   \<and> post_init_register demo_env ''r1'' ''bob'' ''guess'' (demo_state demo_participants)
       = (demo_state demo_participants, Response 401 (error_json ''Invalid password for this username''))
   \<and> \<not> bcrypt_compare demo_env (''bob'' @ ''guess'') (hostLoginHash (demo_room demo_participants))
   \<and> post_host_auth demo_env ''r1'' ''bob'' ''guess'' (demo_state demo_participants)
       = (demo_state demo_participants, Response 401 (error_json ''Invalid host credentials''))
   \<and> post_start demo_env ''r1'' ''bob'' ''guess'' (demo_state demo_participants)
       = (demo_state demo_participants, Response 401 (error_json ''Invalid host credentials''))
   \<and> post_register demo_env ''r1'' ''bob'' ''guess'' ''pemX'' [] (demo_state demo_participants)
       = ((demo_state demo_participants)\<lparr>rateLimitMap := [(''10.0.0.7'', [1000])]\<rparr>,
          Response 401 (error_json ''Invalid password for this username''))
   \<and> map_of (rooms ((demo_state demo_participants)\<lparr>rateLimitMap := [(''10.0.0.7'', replicate 10 999)]\<rparr>)) ''r1''
       = Some (demo_room demo_participants)
   \<and> post_register demo_env ''r1'' ''bob'' ''guess'' ''pemX'' []
         ((demo_state demo_participants)\<lparr>rateLimitMap := [(''10.0.0.7'', replicate 10 999)]\<rparr>)
       = ((demo_state demo_participants)\<lparr>rateLimitMap := [(''10.0.0.7'', replicate 10 999)]\<rparr>,
          Response 429 (error_json ''Too many requests. Please wait a minute.''))
   \<and> find (\<lambda>p. username p = ''mallory'') (participants (demo_room demo_participants)) = None
   \<and> validateUsername ''mallory'' = Inr ''mallory''
   \<and> post_login demo_env ''r1'' ''mallory'' ''guess'' (demo_state demo_participants)
       = (demo_state demo_participants, Response 404 (error_json ''User not found in this room''))
   \<and> post_init_register demo_env ''r1'' ''mallory'' ''guess'' (demo_state demo_participants)
       = (demo_state demo_participants,
          Response 200 (JObj [(''keySalt'', JStr (randomBytes_hex demo_env)),
                              (''alreadyExists'', JBool False)]))"
proof -
  let ?S = "demo_state demo_participants" and ?r = "demo_room demo_participants"
  let ?b = "demo_participant ''bob'' ''bobpw'' ''pemB'' ''s2''"
  let ?S1 = "?S\<lparr>rateLimitMap := [(''10.0.0.7'', [1000])]\<rparr>"
  let ?F = "?S\<lparr>rateLimitMap := [(''10.0.0.7'', replicate 10 999)]\<rparr>"
  have pre: "''bob'' \<noteq> [] \<and> ''guess'' \<noteq> [] \<and> map_of (rooms ?S) ''r1'' = Some ?r"
    by (simp add: demo_state_def)
  have preF: "''bob'' \<noteq> [] \<and> ''guess'' \<noteq> [] \<and> map_of (rooms ?F) ''r1'' = Some ?r"
    by (simp add: demo_state_def)
  have prem: "''mallory'' \<noteq> [] \<and> ''guess'' \<noteq> [] \<and> map_of (rooms ?S) ''r1'' = Some ?r"
    by (simp add: demo_state_def)
  have f: "find (\<lambda>p. username p = ''bob'') (participants ?r) = Some ?b"
    by (simp add: demo_room_def demo_participants_def demo_participant_def)
  have fm: "find (\<lambda>p. username p = ''mallory'') (participants ?r) = None"
    by (simp add: demo_room_def demo_participants_def demo_participant_def)
  have w: "\<not> bcrypt_compare demo_env ''guess'' (passwordHash ?b)"
    by (simp add: demo_env_def demo_participant_def)
  have v: "status ?r = Open" "validateUsername ''bob'' = Inr ''bob''" "4 \<le> length ''guess''"
    "validateUsername ''mallory'' = Inr ''mallory''"
    by (simp_all add: demo_room_def validateUsername_def sanitizeString_def trim_def
          is_whitespace_def special_char_def)
  have h: "\<not> bcrypt_compare demo_env (''bob'' @ ''guess'') (hostLoginHash ?r)"
    by (simp add: demo_env_def demo_room_def)
  have rl: "isRateLimited demo_env ?S = (False, ?S1)"
    by code_simp
  have rlF: "isRateLimited demo_env ?F = (True, ?F)"
    by code_simp
  note th = wrong_credential_replies[of "''bob''" "''guess''" ?S "''r1''" ?r demo_env, THEN mp, OF pre]
  note thF = wrong_credential_replies[of "''bob''" "''guess''" ?F "''r1''" ?r demo_env, THEN mp, OF preF]
  note thM = wrong_credential_replies[of "''mallory''" "''guess''" ?S "''r1''" ?r demo_env, THEN mp, OF prem]
  have a: "post_login demo_env ''r1'' ''bob'' ''guess'' ?S
       = (?S, Response 401 (error_json ''Invalid password''))"
    using th f w by blast
  have b: "post_init_register demo_env ''r1'' ''bob'' ''guess'' ?S
       = (?S, Response 401 (error_json ''Invalid password for this username''))"
    using th v f w by blast
  have c: "post_host_auth demo_env ''r1'' ''bob'' ''guess'' ?S
       = (?S, Response 401 (error_json ''Invalid host credentials''))"
    "post_start demo_env ''r1'' ''bob'' ''guess'' ?S
       = (?S, Response 401 (error_json ''Invalid host credentials''))"
    using th h by blast+
  have all: "status ?r = Open \<and> validateUsername ''bob'' = Inr ''bob'' \<and> 4 \<le> length ''guess''
      \<and> \<not> bcrypt_compare demo_env (''bob'' @ ''guess'') (hostLoginHash ?r)
      \<and> find (\<lambda>p. username p = ''bob'') (participants ?r) = Some ?b
      \<and> \<not> bcrypt_compare demo_env ''guess'' (passwordHash ?b)"
    using v f w h by (intro conjI)
  have d: "post_register demo_env ''r1'' ''bob'' ''guess'' ''pemX'' [] ?S
       = (?S1, Response 401 (error_json ''Invalid password for this username''))"
    using th[THEN conjunct2, THEN conjunct2, THEN conjunct2, THEN conjunct2, THEN conjunct2,
             THEN spec, THEN spec, THEN spec, THEN spec, THEN mp, OF all, of "''pemX''" "[]"]
    unfolding rl by simp
  have dF: "post_register demo_env ''r1'' ''bob'' ''guess'' ''pemX'' [] ?F
       = (?F, Response 429 (error_json ''Too many requests. Please wait a minute.''))"
    using thF[THEN conjunct2, THEN conjunct2, THEN conjunct2, THEN conjunct2, THEN conjunct2,
             THEN spec, THEN spec, THEN spec, THEN spec, THEN mp, OF all, of "''pemX''" "[]"]
    unfolding rlF by simp
  have m1: "post_login demo_env ''r1'' ''mallory'' ''guess'' ?S
       = (?S, Response 404 (error_json ''User not found in this room''))"
    using thM fm by blast
  have m2: "post_init_register demo_env ''r1'' ''mallory'' ''guess'' ?S
       = (?S, Response 200 (JObj [(''keySalt'', JStr (randomBytes_hex demo_env)),
                              (''alreadyExists'', JBool False)]))"
    using thM v fm by blast
  have roomF: "map_of (rooms ?F) ''r1'' = Some ?r"
    by (simp add: demo_state_def)
  from pre f w a v(1,2,3) b h c d roomF dF fm v(4) m1 m2 show ?thesis
    by (intro conjI) (elim conjE, assumption)+
qed

section \<open>Registering again\<close>






section \<open>Host authentication\<close>

lemma post_host_auth_concat:
  "u1 \<noteq> [] \<Longrightarrow> p1 \<noteq> [] \<Longrightarrow> u2 \<noteq> [] \<Longrightarrow> p2 \<noteq> [] \<Longrightarrow> u1 @ p1 = u2 @ p2 \<Longrightarrow>
   post_host_auth e roomId u1 p1 st = post_host_auth e roomId u2 p2 st"
  by (simp add: post_host_auth_def Let_def split: option.splits)

lemma post_start_concat:
  "u1 \<noteq> [] \<Longrightarrow> p1 \<noteq> [] \<Longrightarrow> u2 \<noteq> [] \<Longrightarrow> p2 \<noteq> [] \<Longrightarrow> u1 @ p1 = u2 @ p2 \<Longrightarrow>
   post_start e roomId u1 p1 st = post_start e roomId u2 p2 st"
  by (simp add: post_start_def Let_def split: option.splits)

lemma post_register_isHost:
  assumes "map_of (rooms st) roomId = Some r" and "validateUsername u = Inr s"
    and "post_register e roomId u p pubKey bodySalt st = (st', Response 200 body)"
  shows "json_field ''isHost'' body = Some (JBool (bcrypt_compare e (s @ p) (hostLoginHash r)))"
proof -
  obtain b st1 where rl: "isRateLimited e st = (b, st1)" by (cases "isRateLimited e st")
  have "rooms st1 = rooms st" using rl by (auto simp: isRateLimited_def Let_def split: if_splits)
  with assms(1) have r: "map_of (rooms st1) roomId = Some r" by simp
  show ?thesis
    using assms(2,3) rl r
    by (auto simp: post_register_def Let_def verifyPassword_def await_def json_field_def
          host_reply_def signed_in_reply_def registered_reply_def error_json_def
          split: bool.splits sum.splits option.splits if_splits)
qed

lemma host_split_authenticates:
  assumes "map_of (rooms st) roomId = Some r" "u \<noteq> []" "p \<noteq> []"
    and "bcrypt_compare e (u @ p) (hostLoginHash r)"
  shows "status_code (snd (post_host_auth e roomId u p st)) = 200"
    and "status_code (snd (post_start e roomId u p st)) \<noteq> 401"
  using assms
  by (auto simp: post_host_auth_def post_start_def Let_def verifyPassword_def await_def
        split: sum.splits option.splits)

text \<open>
  Claim C9 as stated fails at register. The room's host is santa with password claus1. The
  pairs (\<^verbatim>\<open>santa<\<close>, \<^verbatim>\<open>claus1\<close>) and (\<^verbatim>\<open>santa\<close>, \<^verbatim>\<open><claus1\<close>) have the same
  concatenation and both pass validation, yet register detects the host in the first
  (the sanitized name \<^verbatim>\<open>santa\<close> followed by \<^verbatim>\<open>claus1\<close>) and not in the second.
\<close>

theorem register_host_detection_counterexample:
  "''santa<'' @ ''claus1'' = ''santa'' @ ''<claus1''
   \<and> validateUsername ''santa<'' = Inr ''santa'' \<and> validatePassword ''claus1'' = Inr ''claus1''
   \<and> validateUsername ''santa'' = Inr ''santa'' \<and> validatePassword ''<claus1'' = Inr ''<claus1''
   \<and> status_code (snd (post_register demo_env ''r1'' ''santa<'' ''claus1'' ''pemS'' []
                          (demo_state demo_participants))) = 200
   \<and> json_field ''isHost'' (reply_body (snd (post_register demo_env ''r1'' ''santa<'' ''claus1'' ''pemS'' []
                          (demo_state demo_participants)))) = Some (JBool True)
   \<and> status_code (snd (post_register demo_env ''r1'' ''santa'' ''<claus1'' ''pemS'' []
                          (demo_state demo_participants))) = 200
   \<and> json_field ''isHost'' (reply_body (snd (post_register demo_env ''r1'' ''santa'' ''<claus1'' ''pemS'' []
                          (demo_state demo_participants)))) = Some (JBool False)"
  by code_simp

text \<open>
  Claim C9, amended. No handler compares the supplied name with \<open>hostUsername\<close>. Host-auth
  and start give two requests the same answer and the same state whenever their names and
  passwords are non-empty and have the same concatenation; credentials whose concatenation
  verifies against \<open>hostLoginHash\<close> are answered 200 by host-auth and never 401 by start,
  however they are split. Register detects the host from the sanitized name followed by
  the password: every 200 reply of register carries as \<^verbatim>\<open>isHost\<close> the result of
  verifying that concatenation against \<open>hostLoginHash\<close>.
\<close>

theorem host_authentication_by_concatenation:
  "(u1 \<noteq> [] \<and> p1 \<noteq> [] \<and> u2 \<noteq> [] \<and> p2 \<noteq> [] \<and> u1 @ p1 = u2 @ p2 \<longrightarrow>
       post_host_auth e roomId u1 p1 st = post_host_auth e roomId u2 p2 st
     \<and> post_start e roomId u1 p1 st = post_start e roomId u2 p2 st)
   \<and> (\<forall>r. map_of (rooms st) roomId = Some r \<and> u1 \<noteq> [] \<and> p1 \<noteq> []
           \<and> bcrypt_compare e (u1 @ p1) (hostLoginHash r) \<longrightarrow>
         status_code (snd (post_host_auth e roomId u1 p1 st)) = 200
       \<and> status_code (snd (post_start e roomId u1 p1 st)) \<noteq> 401)
   \<and> (\<forall>r s st' body pubKey bodySalt.
         map_of (rooms st) roomId = Some r \<and> validateUsername u1 = Inr s
         \<and> post_register e roomId u1 p1 pubKey bodySalt st = (st', Response 200 body) \<longrightarrow>
         json_field ''isHost'' body = Some (JBool (bcrypt_compare e (s @ p1) (hostLoginHash r))))"
  using post_host_auth_concat[of u1 p1 u2 p2 e roomId st] post_start_concat[of u1 p1 u2 p2 e roomId st]
    host_split_authenticates[of st roomId _ u1 p1 e] post_register_isHost[of st roomId _ u1 _ e p1]
  by blast


text \<open>The host's credentials split as \<^verbatim>\<open>sant\<close> and \<^verbatim>\<open>aclaus1\<close>.\<close>

theorem host_authentication_by_concatenation_witness:
  "''sant'' @ ''aclaus1'' = ''santa'' @ ''claus1''
   \<and> bcrypt_compare demo_env (''sant'' @ ''aclaus1'') (hostLoginHash (demo_room demo_participants))
   \<and> post_host_auth demo_env ''r1'' ''sant'' ''aclaus1'' (demo_state demo_participants)
       = post_host_auth demo_env ''r1'' ''santa'' ''claus1'' (demo_state demo_participants)
   \<and> post_start demo_env ''r1'' ''sant'' ''aclaus1'' (demo_state demo_participants)
       = post_start demo_env ''r1'' ''santa'' ''claus1'' (demo_state demo_participants)
   \<and> status_code (snd (post_host_auth demo_env ''r1'' ''sant'' ''aclaus1'' (demo_state demo_participants))) = 200
   \<and> status_code (snd (post_start demo_env ''r1'' ''sant'' ''aclaus1'' (demo_state demo_participants))) \<noteq> 401
   \<and> validateUsername ''sant'' = Inr ''sant''
   \<and> json_field ''isHost''
         (reply_body (snd (post_register demo_env ''r1'' ''sant'' ''aclaus1'' ''pemS'' []
                             (demo_state demo_participants))))
       = Some (JBool (bcrypt_compare demo_env (''sant'' @ ''aclaus1'')
                        (hostLoginHash (demo_room demo_participants))))"
proof -
  let ?S = "demo_state demo_participants" and ?r = "demo_room demo_participants"
  note th = host_authentication_by_concatenation[of "''sant''" "''aclaus1''" "''santa''" "''claus1''"
              demo_env "''r1''" ?S]
  have eq: "''sant'' \<noteq> [] \<and> ''aclaus1'' \<noteq> [] \<and> ''santa'' \<noteq> [] \<and> ''claus1'' \<noteq> []
             \<and> ''sant'' @ ''aclaus1'' = ''santa'' @ ''claus1''"
    by simp
  have r: "map_of (rooms ?S) ''r1'' = Some ?r"
    by (simp add: demo_state_def)
  have h: "bcrypt_compare demo_env (''sant'' @ ''aclaus1'') (hostLoginHash ?r)"
    by (simp add: demo_env_def demo_room_def)
  have v: "validateUsername ''sant'' = Inr ''sant''"
    by code_simp
  have reg: "post_register demo_env ''r1'' ''sant'' ''aclaus1'' ''pemS'' [] ?S
       = (fst (post_register demo_env ''r1'' ''sant'' ''aclaus1'' ''pemS'' [] ?S),
          Response 200 (reply_body (snd (post_register demo_env ''r1'' ''sant'' ''aclaus1'' ''pemS'' [] ?S))))"
    by code_simp
  note a = th[THEN conjunct1, rule_format, OF eq]
  have b: "status_code (snd (post_host_auth demo_env ''r1'' ''sant'' ''aclaus1'' ?S)) = 200
       \<and> status_code (snd (post_start demo_env ''r1'' ''sant'' ''aclaus1'' ?S)) \<noteq> 401"
    using th[THEN conjunct2, THEN conjunct1, rule_format, of ?r] r h by simp
  have c: "json_field ''isHost''
         (reply_body (snd (post_register demo_env ''r1'' ''sant'' ''aclaus1'' ''pemS'' [] ?S)))
       = Some (JBool (bcrypt_compare demo_env (''sant'' @ ''aclaus1'') (hostLoginHash ?r)))"
    using th[THEN conjunct2, THEN conjunct2, rule_format, OF conjI[OF r conjI[OF v reg]]] .
  from eq h a b v c show ?thesis by (intro conjI) (elim conjE, assumption)+
qed

section \<open>Sanitized names at registration, raw names at login\<close>








end
